theory Spec2Isabelle
  imports Complex_Main "HOL-Library.Product_Lexorder"
begin

section \<open>Tables of init\_preprocess.py\<close>

text \<open>
  The script works on pandas data frames. A frame is modelled as the list of its rows in
  index order; every frame the script indexes by label carries a fresh range index
  (\<open>read_csv\<close>, \<open>concat(..., ignore_index=True)\<close>), so the label of a row is its position.
  A cell that may be NaN is an \<open>option\<close>. Time stamps are whole epoch seconds (\<open>int\<close>).
  Only the columns that \<open>fill_missing_icustay_ids\<close> and \<open>find_infection_onset\<close> read or
  write are kept.
\<close>

datatype error = KeyError string

text \<open>A row of \<open>demog\<close>: one ICU stay.\<close>

record stay =
  d_subject_id :: "nat option"
  d_hadm_id :: "nat option"
  d_stay_id :: nat
  intime :: int
  outtime :: int

text \<open>A row of \<open>bacterio\<close>: one culture event; \<open>stay_id\<close> is NaN where it is missing.\<close>

record bact_row =
  b_subject_id :: "nat option"
  charttime :: int
  b_stay_id :: "nat option"

text \<open>
  A row of \<open>abx\<close> as it is loaded, and a row of \<open>abx\<close> once the column \<open>stay_id\<close> exists.
\<close>

record abx_event =
  a_hadm_id :: "nat option"
  starttime :: int

record abx_row = abx_event +
  a_stay_id :: "nat option"

text \<open>
  The frame \<open>abx\<close> either has no column \<open>stay_id\<close> (as line 148 expects, which creates it)
  or has one (as \<open>find_infection_onset\<close> expects).
\<close>

datatype abx_frame = Without_stay_id "abx_event list" | With_stay_id "abx_row list"

section \<open>The pandas operations the script calls\<close>

text \<open>
  \<open>left.merge(right, on=key, how='inner')\<close>: the pairs of rows with equal keys, in the order
  of the left rows and, for one left row, in the order of the right rows. Only the order of
  the pairs of one left row matters below: the script writes, sorts and drops duplicates per
  left label. (NaN keys match NaN keys in pandas; \<open>None = None\<close> does the same here.)
\<close>

definition merge_inner ::
    "('a \<Rightarrow> 'k) \<Rightarrow> ('b \<Rightarrow> 'k) \<Rightarrow> 'a list \<Rightarrow> 'b list \<Rightarrow> ('a \<times> 'b) list" where
  "merge_inner kl kr ls rs = concat (map (\<lambda>l. map (Pair l) (filter (\<lambda>r. kr r = kl l) rs)) ls)"

text \<open>\<open>groupby(key).size()\<close>, read at one key: the number of rows with that key.\<close>

definition group_size :: "('b \<Rightarrow> 'k) \<Rightarrow> 'b list \<Rightarrow> 'k \<Rightarrow> nat" where
  "group_size kr rs k = length (filter (\<lambda>r. kr r = k) rs)"

text \<open>\<open>drop_duplicates(subset=[key])\<close>, which keeps the first row of every key.\<close>

fun drop_duplicates_first :: "('a \<Rightarrow> 'k) \<Rightarrow> 'a list \<Rightarrow> 'a list" where
  "drop_duplicates_first f [] = []"
| "drop_duplicates_first f (x # xs) = x # drop_duplicates_first f (filter (\<lambda>y. f y \<noteq> f x) xs)"

text \<open>\<open>drop_duplicates(subset=[key], keep='last')\<close>, which keeps the last row of every key.\<close>

fun drop_duplicates_last :: "('a \<Rightarrow> 'k) \<Rightarrow> 'a list \<Rightarrow> 'a list" where
  "drop_duplicates_last f [] = []"
| "drop_duplicates_last f (x # xs) =
     (if f x \<in> f ` set xs then drop_duplicates_last f xs else x # drop_duplicates_last f xs)"

text \<open>
  \<open>frame.loc[labels, col] = values\<close>: the cells are written one after the other, so a label
  that occurs twice keeps the value written last. \<open>upd\<close> writes the column of one row.
  All labels the script passes come from the frame's own index, so none is out of range.
\<close>

definition loc_assign :: "('r \<Rightarrow> 'v \<Rightarrow> 'r) \<Rightarrow> (nat \<times> 'v) list \<Rightarrow> 'r list \<Rightarrow> 'r list" where
  "loc_assign upd ivs frame = foldl (\<lambda>t (i, v). t[i := upd (t ! i) v]) frame ivs"

section \<open>fill\_missing\_icustay\_ids\<close>

text \<open>The two comparisons of \<open>time_mask\<close> (lines 121 and 140).\<close>

definition time_mask :: "int \<Rightarrow> stay \<Rightarrow> bool" where
  "time_mask t s \<longleftrightarrow> t \<ge> intime s - 48 * 3600 \<and> t \<le> outtime s + 48 * 3600"

text \<open>Lines 108 to 122: the rows of \<open>valid_bact\<close>, each a culture row with its label, a stay
  and the stay count of the stay's subject.\<close>

definition valid_bact :: "bact_row list \<Rightarrow> stay list \<Rightarrow> ((nat \<times> bact_row) \<times> (stay \<times> nat)) list" where
  "valid_bact bacterio demog =
    (let missing_bact = filter (\<lambda>(idx, b). b_stay_id b = None) (enumerate 0 bacterio);
         demog_sub = filter (\<lambda>s. d_subject_id s \<noteq> None) demog;
         demog_cnt = map (\<lambda>s. (s, group_size d_subject_id demog_sub (d_subject_id s))) demog_sub;
         merged_bact = merge_inner (\<lambda>(idx, b). b_subject_id b) (\<lambda>(s, c). d_subject_id s)
                         missing_bact demog_cnt
     in filter (\<lambda>((idx, b), (s, c)). time_mask (charttime b) s \<or> c = 1) merged_bact)"

text \<open>Line 126: the culture path.\<close>

definition fill_bacterio :: "bact_row list \<Rightarrow> stay list \<Rightarrow> bact_row list" where
  "fill_bacterio bacterio demog =
     loc_assign (\<lambda>b v. b\<lparr>b_stay_id := Some v\<rparr>)
       (map (\<lambda>((idx, b), (s, c)). (idx, d_stay_id s)) (valid_bact bacterio demog)) bacterio"

text \<open>Lines 131 to 141: the rows of \<open>valid_abx\<close>. Every row of \<open>abx\<close> takes part: there
  is no filter on a missing \<open>stay_id\<close> in this path.\<close>

definition valid_abx :: "abx_event list \<Rightarrow> stay list \<Rightarrow> ((nat \<times> abx_event) \<times> (stay \<times> nat)) list" where
  "valid_abx abx demog =
    (let demog_abx_sub = filter (\<lambda>s. d_hadm_id s \<noteq> None) demog;
         demog_cnt = map (\<lambda>s. (s, group_size d_hadm_id demog_abx_sub (d_hadm_id s))) demog_abx_sub;
         merged_abx = merge_inner (\<lambda>(idx, a). a_hadm_id a) (\<lambda>(s, c). d_hadm_id s)
                         (enumerate 0 abx) demog_cnt
     in filter (\<lambda>((idx, a), (s, c)). time_mask (starttime a) s \<or> c = 1) merged_abx)"

text \<open>
  Lines 139 to 149: the antibiotic path. When \<open>abx\<close> already has a column \<open>stay_id\<close>, the
  merge of line 139 names the two columns \<open>stay_id_x\<close> and \<open>stay_id_y\<close> (the culture path drops
  the column at line 112 for that reason), and \<open>valid_abx['stay_id']\<close> at line 148 raises
  \<open>KeyError\<close>. Otherwise line 145 keeps the last row of every label and line 148 creates the
  column, NaN in the rows it does not write.
\<close>

definition fill_abx :: "abx_frame \<Rightarrow> stay list \<Rightarrow> error + abx_row list" where
  "fill_abx abx demog =
    (case abx of
       With_stay_id rows \<Rightarrow> Inl (KeyError ''stay_id'')
     | Without_stay_id rows \<Rightarrow>
         Inr (loc_assign (\<lambda>a v. a\<lparr>a_stay_id := Some v\<rparr>)
               (map (\<lambda>((idx, a), (s, c)). (idx, d_stay_id s))
                  (drop_duplicates_last (\<lambda>((idx, a), (s, c)). idx) (valid_abx rows demog)))
               (map (\<lambda>a. \<lparr>a_hadm_id = a_hadm_id a, starttime = starttime a, a_stay_id = None\<rparr>) rows)))"

text \<open>The whole function: the culture path writes \<open>bacterio\<close>, then the antibiotic path runs.\<close>

definition fill_missing_icustay_ids ::
    "bact_row list \<Rightarrow> stay list \<Rightarrow> abx_frame \<Rightarrow> error + (bact_row list \<times> abx_row list)" where
  "fill_missing_icustay_ids bacterio demog abx =
    (let bacterio' = fill_bacterio bacterio demog
     in case fill_abx abx demog of
          Inl e \<Rightarrow> Inl e
        | Inr abx' \<Rightarrow> Inr (bacterio', abx'))"

text \<open>
  For the proofs: the stays that pass the filter of line 122 (or 141) for one event with
  join key \<open>k\<close> and time \<open>t\<close>, in the order of \<open>demog\<close>. \<open>key\<close> is \<open>d_subject_id\<close> in the
  culture path and \<open>d_hadm_id\<close> in the antibiotic path.
\<close>

definition candidates :: "(stay \<Rightarrow> nat option) \<Rightarrow> stay list \<Rightarrow> nat option \<Rightarrow> int \<Rightarrow> stay list" where
  "candidates key demog k t =
     filter (\<lambda>s. key s = k \<and> key s \<noteq> None \<and> (time_mask t s \<or> group_size key demog k = 1)) demog"

section \<open>find\_infection\_onset\<close>

text \<open>A row of \<open>merged\<close> (line 173): the columns of \<open>abx_sub\<close> and of \<open>bact_sub\<close>.\<close>

record pair_row =
  p_stay_id :: nat
  p_starttime :: int
  abx_idx :: nat
  p_subject_id :: "nat option"
  p_charttime :: int

text \<open>A row of \<open>onset_df\<close>.\<close>

record onset_row =
  o_subject_id :: "nat option"
  o_stay_id :: nat
  onset_time :: int

text \<open>
  Line 176. The quotient is taken in the rationals: for whole seconds the float quotient
  compares with 24 and with 72, and with the quotient of another pair, as the exact one does.
\<close>

definition diff_hr :: "int \<Rightarrow> int \<Rightarrow> rat" where
  "diff_hr st ct = of_int \<bar>st - ct\<bar> / 3600"

text \<open>Lines 166 to 173.\<close>

definition merged :: "abx_row list \<Rightarrow> bact_row list \<Rightarrow> pair_row list" where
  "merged abx bacterio =
    (let abx_sub = concat (map (\<lambda>(i, a). case a_stay_id a of None \<Rightarrow> []
                                 | Some s \<Rightarrow> [(s, starttime a, i)]) (enumerate 0 abx));
         bact_sub = concat (map (\<lambda>b. case b_stay_id b of None \<Rightarrow> []
                                 | Some s \<Rightarrow> [(s, b_subject_id b, charttime b)]) bacterio)
     in map (\<lambda>((s, st, i), (s', subj, ct)).
               \<lparr>p_stay_id = s, p_starttime = st, abx_idx = i, p_subject_id = subj, p_charttime = ct\<rparr>)
          (merge_inner fst fst abx_sub bact_sub))"

text \<open>Lines 177 and 178; the sort on several columns is stable.\<close>

definition closest :: "abx_row list \<Rightarrow> bact_row list \<Rightarrow> pair_row list" where
  "closest abx bacterio =
     drop_duplicates_first abx_idx (sort_key (\<lambda>r. (abx_idx r, diff_hr (p_starttime r) (p_charttime r))) (merged abx bacterio))"

text \<open>Lines 183, 184 and 193.\<close>

definition cond1 :: "pair_row \<Rightarrow> bool" where
  "cond1 r \<longleftrightarrow> diff_hr (p_starttime r) (p_charttime r) \<le> 24 \<and> p_starttime r \<le> p_charttime r"

definition cond2 :: "pair_row \<Rightarrow> bool" where
  "cond2 r \<longleftrightarrow> diff_hr (p_starttime r) (p_charttime r) \<le> 72 \<and> p_starttime r \<ge> p_charttime r"

text \<open>Line 186.\<close>

definition valid :: "abx_row list \<Rightarrow> bact_row list \<Rightarrow> pair_row list" where
  "valid abx bacterio = filter (\<lambda>r. cond1 r \<or> cond2 r) (closest abx bacterio)"

text \<open>Line 197, the column \<open>onset_time\<close> of one row of \<open>valid\<close>.\<close>

definition onset_of :: "pair_row \<Rightarrow> int" where
  "onset_of r = (if cond1 r then p_starttime r else p_charttime r)"

text \<open>Lines 200 to 204.\<close>

definition find_infection_onset :: "abx_row list \<Rightarrow> bact_row list \<Rightarrow> onset_row list" where
  "find_infection_onset abx bacterio =
     map (\<lambda>r. \<lparr>o_subject_id = p_subject_id r, o_stay_id = p_stay_id r, onset_time = onset_of r\<rparr>)
       (drop_duplicates_first p_stay_id (sort_key abx_idx (valid abx bacterio)))"

text \<open>For the proofs: the row of \<open>merged\<close> built from antibiotic row \<open>a\<close> at label \<open>i\<close> and
  culture row \<open>b\<close>, both of stay \<open>s\<close>.\<close>

definition mk_pair :: "nat \<Rightarrow> nat \<Rightarrow> abx_row \<Rightarrow> bact_row \<Rightarrow> pair_row" where
  "mk_pair s i a b = \<lparr>p_stay_id = s, p_starttime = starttime a, abx_idx = i,
      p_subject_id = b_subject_id b, p_charttime = charttime b\<rparr>"

section \<open>Facts about the pandas operations\<close>

lemma loc_assign_length: "length (loc_assign upd ivs t) = length t"
  unfolding loc_assign_def by (induction ivs arbitrary: t) (auto simp: split_def)

lemma loc_assign_snoc:
  "loc_assign upd (ivs @ [(j, v)]) t = (loc_assign upd ivs t)[j := upd (loc_assign upd ivs t ! j) v]"
  by (simp add: loc_assign_def)

lemma loc_assign_nth:
  assumes over: "\<And>r v w. upd (upd r v) w = upd r w" and i: "i < length t"
  shows "loc_assign upd ivs t ! i =
     (let vs = map snd (filter (\<lambda>p. fst p = i) ivs)
      in if vs = [] then t ! i else upd (t ! i) (last vs))"
proof (induction ivs rule: rev_induct)
  case Nil
  show ?case by (simp add: loc_assign_def)
next
  case (snoc p ivs)
  obtain j v where p: "p = (j, v)" by (cases p)
  show ?case
  proof (cases "j = i")
    case True
    then show ?thesis using snoc i over
      by (simp add: p loc_assign_snoc loc_assign_length Let_def)
  next
    case False
    then show ?thesis using snoc
      by (simp add: p loc_assign_snoc Let_def)
  qed
qed

lemma concat_map_filter_if:
  "concat (map h (filter P ys)) = concat (map (\<lambda>y. if P y then h y else []) ys)"
  by (induction ys) auto

lemma concat_map_enumerate_select:
  assumes "\<And>j x. j \<noteq> i \<Longrightarrow> h (j, x) = []"
  shows "concat (map h (enumerate n xs)) =
           (if n \<le> i \<and> i < n + length xs then h (i, xs ! (i - n)) else [])"
  using assms
proof (induction xs arbitrary: n)
  case Nil
  then show ?case by auto
next
  case (Cons x xs)
  show ?case
  proof (cases "i = n")
    case True
    then show ?thesis using Cons.IH[of "Suc n"] Cons.prems by simp
  next
    case False
    then show ?thesis using Cons.IH[of "Suc n"] Cons.prems
      by (auto simp: nth_Cons')
  qed
qed

lemma drop_duplicates_last_filter:
  "filter (\<lambda>y. f y = k) (drop_duplicates_last f xs) =
     (let ys = filter (\<lambda>y. f y = k) xs in if ys = [] then [] else [last ys])"
proof (induction xs)
  case Nil
  then show ?case by simp
next
  case (Cons x xs)
  have *: "filter (\<lambda>y. f y = k) xs = [] \<longleftrightarrow> k \<notin> f ` set xs"
    by (auto simp: filter_empty_conv)
  show ?case using Cons * by (auto simp: Let_def)
qed

lemma drop_duplicates_first_filter:
  "filter (\<lambda>y. f y = k) (drop_duplicates_first f xs) = take 1 (filter (\<lambda>y. f y = k) xs)"
proof (induction f xs rule: drop_duplicates_first.induct)
  case (1 f)
  then show ?case by simp
next
  case (2 f x xs)
  show ?case
  proof (cases "f x = k")
    case True
    then show ?thesis using 2 by (simp)
  next
    case False
    have "filter (\<lambda>y. f y = k) (filter (\<lambda>y. f y \<noteq> f x) xs) = filter (\<lambda>y. f y = k) xs"
      using False by (auto intro: filter_cong)
    then show ?thesis using 2 False by simp
  qed
qed

lemma filter_merge_enumerate:
  "filter (\<lambda>z. fst (fst z) = i \<and> V (snd (fst z)) (snd z))
      (merge_inner (\<lambda>l. kl (snd l)) kr (filter (\<lambda>l. P (snd l)) (enumerate 0 xs)) rs) =
   (if i < length xs \<and> P (xs ! i)
    then map (Pair (i, xs ! i)) (filter (\<lambda>r. kr r = kl (xs ! i) \<and> V (xs ! i) r) rs) else [])"
proof -
  define h where "h = (\<lambda>l :: nat \<times> 'a. if P (snd l)
      then filter (\<lambda>z. fst (fst z) = i \<and> V (snd (fst z)) (snd z)) (map (Pair l) (filter (\<lambda>r. kr r = kl (snd l)) rs))
      else [])"
  have h_other: "h (j, x) = []" if "j \<noteq> i" for j x
    using that by (simp add: h_def filter_map o_def)
  have h_i: "h (i, x) = (if P x then map (Pair (i, x)) (filter (\<lambda>r. kr r = kl x \<and> V x r) rs) else [])" for x
    by (simp add: h_def filter_map o_def conj_commute)
  have "filter (\<lambda>z. fst (fst z) = i \<and> V (snd (fst z)) (snd z))
      (merge_inner (\<lambda>l. kl (snd l)) kr (filter (\<lambda>l. P (snd l)) (enumerate 0 xs)) rs)
     = concat (map h (enumerate 0 xs))"
    by (auto simp add: merge_inner_def filter_concat o_def concat_map_filter_if h_def
          intro!: arg_cong[where f = concat])
  also have "\<dots> = (if i < length xs then h (i, xs ! i) else [])"
    using concat_map_enumerate_select[of i h 0 xs] h_other by simp
  finally show ?thesis by (simp add: h_i)
qed

section \<open>The rows of one event in the stay join\<close>

lemma group_size_sub:
  "k \<noteq> None \<Longrightarrow> group_size key (filter (\<lambda>s. key s \<noteq> None) demog) k = group_size key demog k"
  by (auto simp: group_size_def intro!: arg_cong[where f = length] filter_cong)

lemma valid_rows_select:
  fixes key :: "stay \<Rightarrow> nat option"
  shows "filter (\<lambda>z. fst (fst z) = i)
     (filter (\<lambda>z. time_mask (tm (snd (fst z))) (fst (snd z)) \<or> snd (snd z) = 1)
       (merge_inner (\<lambda>l. kl (snd l)) (\<lambda>r. key (fst r)) (filter (\<lambda>l. P (snd l)) (enumerate 0 xs))
          (map (\<lambda>s. (s, group_size key (filter (\<lambda>s. key s \<noteq> None) demog) (key s)))
             (filter (\<lambda>s. key s \<noteq> None) demog)))) =
   (if i < length xs \<and> P (xs ! i)
    then map (\<lambda>s. ((i, xs ! i), (s, group_size key demog (kl (xs ! i)))))
           (candidates key demog (kl (xs ! i)) (tm (xs ! i)))
    else [])"
proof -
  let ?rs = "map (\<lambda>s. (s, group_size key (filter (\<lambda>s. key s \<noteq> None) demog) (key s)))
             (filter (\<lambda>s. key s \<noteq> None) demog)"
  let ?V = "\<lambda>e (r :: stay \<times> nat). time_mask (tm e) (fst r) \<or> snd r = 1"
  let ?M = "merge_inner (\<lambda>l. kl (snd l)) (\<lambda>r. key (fst r)) (filter (\<lambda>l. P (snd l)) (enumerate 0 xs)) ?rs"
  have "filter (\<lambda>z. fst (fst z) = i)
     (filter (\<lambda>z. time_mask (tm (snd (fst z))) (fst (snd z)) \<or> snd (snd z) = 1) ?M)
     = filter (\<lambda>z. fst (fst z) = i \<and> ?V (snd (fst z)) (snd z)) ?M"
    by (simp add: conj_commute)
  also have "\<dots> = (if i < length xs \<and> P (xs ! i)
    then map (Pair (i, xs ! i)) (filter (\<lambda>r. key (fst r) = kl (xs ! i) \<and> ?V (xs ! i) r) ?rs) else [])"
    by (rule filter_merge_enumerate)
  also have "filter (\<lambda>r. key (fst r) = kl (xs ! i) \<and> ?V (xs ! i) r) ?rs
     = map (\<lambda>s. (s, group_size key demog (kl (xs ! i)))) (candidates key demog (kl (xs ! i)) (tm (xs ! i)))"
  proof -
    have gs: "group_size key (filter (\<lambda>s. key s \<noteq> None) demog) (key s) = group_size key demog (kl (xs ! i))"
      if "key s = kl (xs ! i)" "key s \<noteq> None" for s
      using that group_size_sub[of "key s" key demog] by simp
    have A: "filter (\<lambda>s. key s \<noteq> None \<and> key s = kl (xs ! i) \<and> (time_mask (tm (xs ! i)) s \<or>
                 group_size key (filter (\<lambda>s. key s \<noteq> None) demog) (key s) = 1)) demog
             = candidates key demog (kl (xs ! i)) (tm (xs ! i))"
      unfolding candidates_def
    proof (rule filter_cong)
      fix s
      show "(key s \<noteq> None \<and> key s = kl (xs ! i) \<and> (time_mask (tm (xs ! i)) s \<or>
                 group_size key (filter (\<lambda>s. key s \<noteq> None) demog) (key s) = 1))
          = (key s = kl (xs ! i) \<and> key s \<noteq> None \<and> (time_mask (tm (xs ! i)) s \<or>
                 group_size key demog (kl (xs ! i)) = 1))"
      proof (cases "key s = kl (xs ! i) \<and> key s \<noteq> None")
        case True
        then have "group_size key (filter (\<lambda>s. key s \<noteq> None) demog) (key s)
              = group_size key demog (kl (xs ! i))"
          using gs[of s] by blast
        then show ?thesis by auto
      next
        case False
        then show ?thesis by blast
      qed
    qed simp
    have B: "map (\<lambda>s. (s, group_size key (filter (\<lambda>s. key s \<noteq> None) demog) (key s)))
               (candidates key demog (kl (xs ! i)) (tm (xs ! i)))
           = map (\<lambda>s. (s, group_size key demog (kl (xs ! i)))) (candidates key demog (kl (xs ! i)) (tm (xs ! i)))"
    proof (rule map_cong)
      fix s assume "s \<in> set (candidates key demog (kl (xs ! i)) (tm (xs ! i)))"
      then have "key s = kl (xs ! i)" "key s \<noteq> None"
        unfolding candidates_def set_filter mem_Collect_eq by blast+
      then show "(s, group_size key (filter (\<lambda>s. key s \<noteq> None) demog) (key s))
          = (s, group_size key demog (kl (xs ! i)))"
        using gs[of s] by simp
    qed simp
    show ?thesis
      unfolding filter_map filter_filter o_def using A B by (simp add: conj_commute conj_left_commute)
  qed
  finally show ?thesis by (simp add: o_def)
qed

lemma valid_bact_select:
  "filter (\<lambda>z. fst (fst z) = i) (valid_bact bacterio demog) =
    (if i < length bacterio \<and> b_stay_id (bacterio ! i) = None
     then map (\<lambda>s. ((i, bacterio ! i), (s, group_size d_subject_id demog (b_subject_id (bacterio ! i)))))
            (candidates d_subject_id demog (b_subject_id (bacterio ! i)) (charttime (bacterio ! i)))
     else [])"
  unfolding valid_bact_def Let_def split_def
  by (rule valid_rows_select[where P = "\<lambda>b. b_stay_id b = None" and kl = b_subject_id
        and key = d_subject_id and tm = charttime])

lemma valid_abx_select:
  "filter (\<lambda>z. fst (fst z) = i) (valid_abx abx demog) =
    (if i < length abx
     then map (\<lambda>s. ((i, abx ! i), (s, group_size d_hadm_id demog (a_hadm_id (abx ! i)))))
            (candidates d_hadm_id demog (a_hadm_id (abx ! i)) (starttime (abx ! i)))
     else [])"
  unfolding valid_abx_def Let_def split_def
  using valid_rows_select[where P = "\<lambda>b. True" and kl = a_hadm_id
        and key = d_hadm_id and tm = starttime and xs = abx and i = i and demog = demog]
  by simp

lemma fill_bacterio_length: "length (fill_bacterio bacterio demog) = length bacterio"
  by (simp add: fill_bacterio_def loc_assign_length)

lemma fill_bacterio_nth:
  assumes "i < length bacterio"
  shows "fill_bacterio bacterio demog ! i =
    (let b = bacterio ! i;
         cs = candidates d_subject_id demog (b_subject_id b) (charttime b)
     in if b_stay_id b = None \<and> cs \<noteq> [] then b\<lparr>b_stay_id := Some (d_stay_id (last cs))\<rparr> else b)"
proof -
  let ?ivs = "map (\<lambda>((idx, b), (s, c)). (idx, d_stay_id s)) (valid_bact bacterio demog)"
  have sel: "map snd (filter (\<lambda>p. fst p = i) ?ivs) =
     (if b_stay_id (bacterio ! i) = None
      then map d_stay_id (candidates d_subject_id demog (b_subject_id (bacterio ! i)) (charttime (bacterio ! i)))
      else [])"
    using assms valid_bact_select[of i bacterio demog]
    by (simp add: filter_map o_def split_def)
  show ?thesis
    unfolding fill_bacterio_def
    using assms sel
    by (subst loc_assign_nth) (auto simp: Let_def last_map)
qed

lemma fill_abx_closed:
  "fill_abx (Without_stay_id rows) demog =
     Inr (map (\<lambda>a. \<lparr>a_hadm_id = a_hadm_id a, starttime = starttime a,
                     a_stay_id = (let cs = candidates d_hadm_id demog (a_hadm_id a) (starttime a)
                                  in if cs = [] then None else Some (d_stay_id (last cs)))\<rparr>) rows)"
proof -
  let ?dd = "drop_duplicates_last (\<lambda>((idx, a), (s, c)). idx) (valid_abx rows demog)"
  let ?ivs = "map (\<lambda>((idx, a), (s, c)). (idx, d_stay_id s)) ?dd"
  let ?init = "map (\<lambda>a. \<lparr>a_hadm_id = a_hadm_id a, starttime = starttime a, a_stay_id = None\<rparr>) rows"
  let ?upd = "\<lambda>(a :: abx_row) v. a\<lparr>a_stay_id := Some v\<rparr>"
  have sel: "map snd (filter (\<lambda>p. fst p = i) ?ivs) =
     (let cs = candidates d_hadm_id demog (a_hadm_id (rows ! i)) (starttime (rows ! i))
      in if cs = [] then [] else [d_stay_id (last cs)])" if "i < length rows" for i
  proof -
    have "filter (\<lambda>z. fst (fst z) = i) ?dd =
       (let ys = filter (\<lambda>z. fst (fst z) = i) (valid_abx rows demog) in if ys = [] then [] else [last ys])"
      using drop_duplicates_last_filter[of "\<lambda>z. fst (fst z)" i "valid_abx rows demog"]
      by (simp add: split_def)
    then show ?thesis using that
      by (simp add: filter_map o_def split_def valid_abx_select Let_def last_map)
  qed
  have "loc_assign ?upd ?ivs ?init =
      map (\<lambda>a. \<lparr>a_hadm_id = a_hadm_id a, starttime = starttime a,
                     a_stay_id = (let cs = candidates d_hadm_id demog (a_hadm_id a) (starttime a)
                                  in if cs = [] then None else Some (d_stay_id (last cs)))\<rparr>) rows"
  proof (rule nth_equalityI)
    show "length (loc_assign ?upd ?ivs ?init) = length (map (\<lambda>a. \<lparr>a_hadm_id = a_hadm_id a, starttime = starttime a,
                     a_stay_id = (let cs = candidates d_hadm_id demog (a_hadm_id a) (starttime a)
                                  in if cs = [] then None else Some (d_stay_id (last cs)))\<rparr>) rows)"
      by (simp add: loc_assign_length)
  next
    fix i assume "i < length (loc_assign ?upd ?ivs ?init)"
    then have i: "i < length rows" by (simp add: loc_assign_length)
    have "loc_assign ?upd ?ivs ?init ! i =
       (let vs = map snd (filter (\<lambda>p. fst p = i) ?ivs) in if vs = [] then ?init ! i else ?upd (?init ! i) (last vs))"
      by (rule loc_assign_nth) (use i in simp_all)
    then show "loc_assign ?upd ?ivs ?init ! i = map (\<lambda>a. \<lparr>a_hadm_id = a_hadm_id a, starttime = starttime a,
                     a_stay_id = (let cs = candidates d_hadm_id demog (a_hadm_id a) (starttime a)
                                  in if cs = [] then None else Some (d_stay_id (last cs)))\<rparr>) rows ! i"
      using i sel[OF i] by (simp add: Let_def)
  qed
  then show ?thesis by (simp add: fill_abx_def)
qed

lemma fill_abx_nth:
  assumes "i < length evs"
  shows "\<exists>out. fill_abx (Without_stay_id evs) demog = Inr out \<and> length out = length evs \<and>
     a_stay_id (out ! i) =
       (let cs = candidates d_hadm_id demog (a_hadm_id (evs ! i)) (starttime (evs ! i))
        in if cs = [] then None else Some (d_stay_id (last cs)))"
  using assms by (simp add: fill_abx_closed)

lemma fill_abx_total:
  "\<exists>out. fill_abx (Without_stay_id evs) demog = Inr out \<and> length out = length evs"
  by (simp add: fill_abx_closed)

lemma fill_bacterio_keeps_stay_id:
  assumes "i < length bacterio" and "b_stay_id (bacterio ! i) \<noteq> None"
  shows "fill_bacterio bacterio demog ! i = bacterio ! i"
  using assms by (simp add: fill_bacterio_nth Let_def)

lemma fill_bacterio_idem: "fill_bacterio (fill_bacterio bacterio demog) demog = fill_bacterio bacterio demog"
proof (rule nth_equalityI)
  show "length (fill_bacterio (fill_bacterio bacterio demog) demog) = length (fill_bacterio bacterio demog)"
    by (simp add: fill_bacterio_length)
next
  fix i assume "i < length (fill_bacterio (fill_bacterio bacterio demog) demog)"
  then have i: "i < length bacterio" by (simp add: fill_bacterio_length)
  then have i': "i < length (fill_bacterio bacterio demog)" by (simp add: fill_bacterio_length)
  show "fill_bacterio (fill_bacterio bacterio demog) demog ! i = fill_bacterio bacterio demog ! i"
    unfolding fill_bacterio_nth[OF i', of demog]
    unfolding fill_bacterio_nth[OF i, of demog]
    by (simp add: Let_def)
qed

lemma in_valid_bact_iff:
  "((i, b), (s, c)) \<in> set (valid_bact bacterio demog) \<longleftrightarrow>
     i < length bacterio \<and> b = bacterio ! i \<and> b_stay_id b = None \<and>
     s \<in> set (candidates d_subject_id demog (b_subject_id b) (charttime b)) \<and>
     c = group_size d_subject_id demog (b_subject_id b)"
proof -
  have "((i, b), (s, c)) \<in> set (valid_bact bacterio demog) \<longleftrightarrow>
        ((i, b), (s, c)) \<in> set (filter (\<lambda>z. fst (fst z) = i) (valid_bact bacterio demog))"
    by simp
  also have "\<dots> \<longleftrightarrow> i < length bacterio \<and> b = bacterio ! i \<and> b_stay_id b = None \<and>
     s \<in> set (candidates d_subject_id demog (b_subject_id b) (charttime b)) \<and>
     c = group_size d_subject_id demog (b_subject_id b)"
    unfolding valid_bact_select by auto
  finally show ?thesis .
qed

lemma in_valid_abx_iff:
  "((i, a), (s, c)) \<in> set (valid_abx evs demog) \<longleftrightarrow>
     i < length evs \<and> a = evs ! i \<and>
     s \<in> set (candidates d_hadm_id demog (a_hadm_id a) (starttime a)) \<and>
     c = group_size d_hadm_id demog (a_hadm_id a)"
proof -
  have "((i, a), (s, c)) \<in> set (valid_abx evs demog) \<longleftrightarrow>
        ((i, a), (s, c)) \<in> set (filter (\<lambda>z. fst (fst z) = i) (valid_abx evs demog))"
    by simp
  also have "\<dots> \<longleftrightarrow> i < length evs \<and> a = evs ! i \<and>
     s \<in> set (candidates d_hadm_id demog (a_hadm_id a) (starttime a)) \<and>
     c = group_size d_hadm_id demog (a_hadm_id a)"
    unfolding valid_abx_select by auto
  finally show ?thesis .
qed

lemma in_candidates_iff:
  "s \<in> set (candidates key demog k t) \<longleftrightarrow>
     s \<in> set demog \<and> key s = k \<and> key s \<noteq> None \<and>
     ((intime s - 48 * 3600 \<le> t \<and> t \<le> outtime s + 48 * 3600) \<or>
       length (filter (\<lambda>s'. key s' = k) demog) = 1)"
  by (auto simp: candidates_def time_mask_def group_size_def)

lemma no_rows_candidates_bact:
  assumes "i < length bacterio" "b_stay_id (bacterio ! i) = None"
    and "\<forall>z\<in>set (valid_bact bacterio demog). fst (fst z) \<noteq> i"
  shows "candidates d_subject_id demog (b_subject_id (bacterio ! i)) (charttime (bacterio ! i)) = []"
proof -
  have "filter (\<lambda>z. fst (fst z) = i) (valid_bact bacterio demog) = []"
    using assms(3) by (auto simp: filter_empty_conv)
  then show ?thesis using assms(1,2) by (simp add: valid_bact_select)
qed

lemma no_rows_candidates_abx:
  assumes "i < length evs"
    and "\<forall>z\<in>set (valid_abx evs demog). fst (fst z) \<noteq> i"
  shows "candidates d_hadm_id demog (a_hadm_id (evs ! i)) (starttime (evs ! i)) = []"
proof -
  have "filter (\<lambda>z. fst (fst z) = i) (valid_abx evs demog) = []"
    using assms(2) by (auto simp: filter_empty_conv)
  then show ?thesis using assms(1) by (simp add: valid_abx_select)
qed

section \<open>The pairs of one antibiotic event\<close>

lemma bact_sub_filter:
  "filter (\<lambda>r. fst r = s) (concat (map (\<lambda>b. case b_stay_id b of None \<Rightarrow> []
                                 | Some s \<Rightarrow> [(s, b_subject_id b, charttime b)]) bacterio))
   = map (\<lambda>b. (s, b_subject_id b, charttime b)) (filter (\<lambda>b. b_stay_id b = Some s) bacterio)"
  by (induction bacterio) (auto split: option.splits)

lemma merge_inner_concat_left:
  "merge_inner kl kr (concat xss) rs = concat (map (\<lambda>xs. merge_inner kl kr xs rs) xss)"
  by (induction xss) (simp_all add: merge_inner_def)

lemma merged_select:
  "filter (\<lambda>r. abx_idx r = i) (merged abx bacterio) =
    (if i < length abx
     then (case a_stay_id (abx ! i) of None \<Rightarrow> []
           | Some s \<Rightarrow> map (mk_pair s i (abx ! i)) (filter (\<lambda>b. b_stay_id b = Some s) bacterio))
     else [])"
proof -
  let ?bs = "concat (map (\<lambda>b. case b_stay_id b of None \<Rightarrow> []
                                 | Some s \<Rightarrow> [(s, b_subject_id b, charttime b)]) bacterio)"
  let ?g = "\<lambda>(i, a). case a_stay_id a of None \<Rightarrow> [] | Some s \<Rightarrow> [(s, starttime a, i :: nat)]"
  let ?mk = "\<lambda>((s, st, i), (s', subj, ct)).
               \<lparr>p_stay_id = s, p_starttime = st, abx_idx = i, p_subject_id = subj, p_charttime = (ct::int)\<rparr>"
  define h where "h = (\<lambda>l :: nat \<times> abx_row.
      filter (\<lambda>r. abx_idx r = i) (map ?mk (merge_inner fst fst (?g l) ?bs)))"
  have "merged abx bacterio = concat (map (\<lambda>l. map ?mk (merge_inner fst fst (?g l) ?bs)) (enumerate 0 abx))"
    unfolding merged_def Let_def merge_inner_concat_left map_concat by (simp add: o_def)
  then have "filter (\<lambda>r. abx_idx r = i) (merged abx bacterio) = concat (map h (enumerate 0 abx))"
    by (simp add: filter_concat o_def h_def)
  moreover have "h (j, x) = []" if "j \<noteq> i" for j x
    using that by (cases "a_stay_id x") (simp_all add: h_def merge_inner_def filter_map o_def split_def)
  ultimately have "filter (\<lambda>r. abx_idx r = i) (merged abx bacterio)
      = (if i < length abx then h (i, abx ! i) else [])"
    using concat_map_enumerate_select[of i h 0 abx] by simp
  moreover have "h (i, x) = (case a_stay_id x of None \<Rightarrow> []
           | Some s \<Rightarrow> map (mk_pair s i x) (filter (\<lambda>b. b_stay_id b = Some s) bacterio))" for x
    by (cases "a_stay_id x")
       (simp_all add: h_def merge_inner_def bact_sub_filter filter_map o_def mk_pair_def split_def)
  ultimately show ?thesis by simp
qed

lemma insort_key_order_cong:
  "(\<And>y. y \<in> set ys \<Longrightarrow> (f x \<le> f y) = (g x \<le> g y)) \<Longrightarrow> insort_key f x ys = insort_key g x ys"
  by (induction ys) auto

lemma sort_key_order_cong:
  "(\<And>x y. x \<in> set xs \<Longrightarrow> y \<in> set xs \<Longrightarrow> (f x \<le> f y) = (g x \<le> g y)) \<Longrightarrow>
     sort_key f xs = sort_key g xs"
proof (induction xs)
  case Nil
  then show ?case by simp
next
  case (Cons x xs)
  have "sort_key f xs = sort_key g xs" using Cons by simp
  moreover have "insort_key f x (sort_key g xs) = insort_key g x (sort_key g xs)"
    by (rule insort_key_order_cong) (use Cons.prems in simp)
  ultimately show ?case by simp
qed

lemma sort_key_take1:
  "ys \<noteq> [] \<Longrightarrow> \<exists>j<length ys. take 1 (sort_key f ys) = [ys ! j] \<and>
      (\<forall>k<length ys. f (ys ! j) \<le> f (ys ! k)) \<and> (\<forall>k<j. f (ys ! j) < f (ys ! k))"
proof (induction ys)
  case Nil
  then show ?case by simp
next
  case (Cons x xs)
  show ?case
  proof (cases "xs = []")
    case True
    then show ?thesis by simp
  next
    case False
    then obtain j where j: "j < length xs" "take 1 (sort_key f xs) = [xs ! j]"
        "\<forall>k<length xs. f (xs ! j) \<le> f (xs ! k)" "\<forall>k<j. f (xs ! j) < f (xs ! k)"
      using Cons.IH by blast
    from j(2) obtain rest where srt: "sort_key f xs = xs ! j # rest"
      by (cases "sort_key f xs") simp_all
    show ?thesis
    proof (cases "f x \<le> f (xs ! j)")
      case True
      have "take 1 (sort_key f (x # xs)) = [(x # xs) ! 0]" using True srt by simp
      moreover have "\<forall>k<length (x # xs). f ((x # xs) ! 0) \<le> f ((x # xs) ! k)"
        using True j(3) by (auto simp: nth_Cons split: nat.splits intro: order_trans)
      ultimately show ?thesis by (intro exI[of _ 0]) simp
    next
      case F: False
      have "take 1 (sort_key f (x # xs)) = [(x # xs) ! Suc j]" using F srt by simp
      moreover have "\<forall>k<length (x # xs). f ((x # xs) ! Suc j) \<le> f ((x # xs) ! k)"
        using F j(3) by (auto simp: nth_Cons split: nat.splits)
      moreover have "\<forall>k<Suc j. f ((x # xs) ! Suc j) < f ((x # xs) ! k)"
        using F j(4) by (auto simp: nth_Cons split: nat.splits)
      ultimately show ?thesis using j(1) by (intro exI[of _ "Suc j"]) simp
    qed
  qed
qed

lemma filter_index:
  "j < length (filter P xs) \<Longrightarrow>
     \<exists>j'<length xs. filter P xs ! j = xs ! j' \<and> filter P (take j' xs) = take j (filter P xs)"
proof (induction xs arbitrary: j)
  case Nil
  then show ?case by simp
next
  case (Cons x xs)
  show ?case
  proof (cases "P x")
    case True
    show ?thesis
    proof (cases j)
      case 0
      then show ?thesis using True by (intro exI[of _ 0]) simp
    next
      case (Suc j0)
      then have "j0 < length (filter P xs)" using Cons.prems True by simp
      then obtain j' where "j' < length xs" "filter P xs ! j0 = xs ! j'"
          "filter P (take j' xs) = take j0 (filter P xs)"
        using Cons.IH by blast
      then show ?thesis using True Suc by (intro exI[of _ "Suc j'"]) simp
    qed
  next
    case False
    then have "j < length (filter P xs)" using Cons.prems by simp
    then obtain j' where "j' < length xs" "filter P xs ! j = xs ! j'"
        "filter P (take j' xs) = take j (filter P xs)"
      using Cons.IH by blast
    then show ?thesis using False by (intro exI[of _ "Suc j'"]) simp
  qed
qed

lemma closest_select:
  "filter (\<lambda>r. abx_idx r = i) (closest abx bacterio) =
     take 1 (sort_key (\<lambda>r. diff_hr (p_starttime r) (p_charttime r))
               (filter (\<lambda>r. abx_idx r = i) (merged abx bacterio)))"
proof -
  let ?K = "\<lambda>r. (abx_idx r, diff_hr (p_starttime r) (p_charttime r))"
  let ?d = "\<lambda>r. diff_hr (p_starttime r) (p_charttime r)"
  let ?rows = "filter (\<lambda>r. abx_idx r = i) (merged abx bacterio)"
  have "filter (\<lambda>r. abx_idx r = i) (closest abx bacterio)
      = take 1 (filter (\<lambda>r. abx_idx r = i) (sort_key ?K (merged abx bacterio)))"
    unfolding closest_def by (rule drop_duplicates_first_filter)
  also have "filter (\<lambda>r. abx_idx r = i) (sort_key ?K (merged abx bacterio)) = sort_key ?K ?rows"
    by (rule filter_sort)
  also have "sort_key ?K ?rows = sort_key ?d ?rows"
    by (rule sort_key_order_cong) auto
  finally show ?thesis .
qed

lemma diff_hr_mk_pair:
  "diff_hr (p_starttime (mk_pair s i a b)) (p_charttime (mk_pair s i a b)) = diff_hr (starttime a) (charttime b)"
  by (simp add: mk_pair_def)

lemma closest_row_exists:
  assumes i: "i < length abx" and s: "a_stay_id (abx ! i) = Some s"
    and ex: "\<exists>b\<in>set bacterio. b_stay_id b = Some s"
  shows "\<exists>j<length bacterio. b_stay_id (bacterio ! j) = Some s \<and>
     filter (\<lambda>r. abx_idx r = i) (closest abx bacterio) =
       [\<lparr>p_stay_id = s, p_starttime = starttime (abx ! i), abx_idx = i,
         p_subject_id = b_subject_id (bacterio ! j), p_charttime = charttime (bacterio ! j)\<rparr>] \<and>
     (\<forall>k<length bacterio. b_stay_id (bacterio ! k) = Some s \<longrightarrow>
        diff_hr (starttime (abx ! i)) (charttime (bacterio ! j))
          \<le> diff_hr (starttime (abx ! i)) (charttime (bacterio ! k)) \<and>
        (k < j \<longrightarrow> diff_hr (starttime (abx ! i)) (charttime (bacterio ! j))
          < diff_hr (starttime (abx ! i)) (charttime (bacterio ! k))))"
proof -
  let ?P = "\<lambda>b. b_stay_id b = Some s"
  let ?cs = "filter ?P bacterio"
  let ?a = "abx ! i"
  let ?d = "\<lambda>r. diff_hr (p_starttime r) (p_charttime r)"
  let ?rows = "map (mk_pair s i ?a) ?cs"
  let ?dh = "\<lambda>b. diff_hr (starttime ?a) (charttime b)"
  have rows: "filter (\<lambda>r. abx_idx r = i) (merged abx bacterio) = ?rows"
    using i s by (simp add: merged_select)
  have ne: "?rows \<noteq> []" using ex by (auto simp: filter_empty_conv)
  obtain j0 where j0: "j0 < length ?rows" "take 1 (sort_key ?d ?rows) = [?rows ! j0]"
      "\<forall>k<length ?rows. ?d (?rows ! j0) \<le> ?d (?rows ! k)" "\<forall>k<j0. ?d (?rows ! j0) < ?d (?rows ! k)"
    using sort_key_take1[OF ne, of ?d] by blast
  have j0_len: "j0 < length ?cs" using j0(1) by simp
  have le0: "?dh (?cs ! j0) \<le> ?dh (?cs ! k)" if "k < length ?cs" for k
    using j0(3) that j0_len by (simp add: diff_hr_mk_pair)
  have lt0: "?dh (?cs ! j0) < ?dh (?cs ! k)" if "k < j0" for k
    using j0(4) that j0_len by (simp add: diff_hr_mk_pair)
  obtain j where j: "j < length bacterio" "?cs ! j0 = bacterio ! j"
      "filter ?P (take j bacterio) = take j0 ?cs"
    using filter_index[OF j0_len] by blast
  have Pj: "?P (bacterio ! j)"
  proof -
    have "?cs ! j0 \<in> set ?cs" using j0_len by (rule nth_mem)
    then show ?thesis using j(2) by simp
  qed
  have row: "filter (\<lambda>r. abx_idx r = i) (closest abx bacterio) =
       [\<lparr>p_stay_id = s, p_starttime = starttime (abx ! i), abx_idx = i,
         p_subject_id = b_subject_id (bacterio ! j), p_charttime = charttime (bacterio ! j)\<rparr>]"
    using j0(2) j(2) j0_len by (simp add: closest_select rows mk_pair_def)
  have le: "?dh (bacterio ! j) \<le> ?dh (bacterio ! k)" if "k < length bacterio" "?P (bacterio ! k)" for k
  proof -
    have "bacterio ! k \<in> set ?cs" using that by simp
    then obtain k0 where "k0 < length ?cs" "?cs ! k0 = bacterio ! k"
      using in_set_conv_nth[of "bacterio ! k" ?cs] by blast
    then show ?thesis using le0[of k0] j(2) by simp
  qed
  have lt: "?dh (bacterio ! j) < ?dh (bacterio ! k)" if "k < j" "?P (bacterio ! k)" for k
  proof -
    have "bacterio ! k \<in> set (take j bacterio)"
      using that(1) j(1) by (auto simp: in_set_conv_nth intro!: exI[of _ k])
    then have "bacterio ! k \<in> set (filter ?P (take j bacterio))"
      using that(2) by simp
    then have "bacterio ! k \<in> set (take j0 ?cs)"
      using j(3) by simp
    then obtain k0 where "k0 < length (take j0 ?cs)" "take j0 ?cs ! k0 = bacterio ! k"
      using in_set_conv_nth[of "bacterio ! k" "take j0 ?cs"] by blast
    then have "k0 < j0" "?cs ! k0 = bacterio ! k" by simp_all
    then show ?thesis using lt0[of k0] j(2) by simp
  qed
  show ?thesis
    using j(1) Pj row le lt by (intro exI[of _ j]) blast
qed

lemma closest_no_row:
  assumes "i < length abx \<longrightarrow>
     (case a_stay_id (abx ! i) of None \<Rightarrow> True | Some s \<Rightarrow> \<forall>b\<in>set bacterio. b_stay_id b \<noteq> Some s)"
  shows "filter (\<lambda>r. abx_idx r = i) (closest abx bacterio) = []"
proof -
  have "filter (\<lambda>r. abx_idx r = i) (merged abx bacterio) = []"
  proof (cases "i < length abx")
    case True
    then show ?thesis
      using assms by (cases "a_stay_id (abx ! i)") (simp_all add: merged_select filter_empty_conv)
  next
    case False
    then show ?thesis by (simp add: merged_select)
  qed
  then show ?thesis by (simp add: closest_select)
qed

lemma closest_row_first_min:
  assumes i: "i < length abx" and s: "a_stay_id (abx ! i) = Some s"
    and j: "j < length bacterio" and sj: "b_stay_id (bacterio ! j) = Some s"
    and best: "\<forall>k<length bacterio. b_stay_id (bacterio ! k) = Some s \<longrightarrow>
        diff_hr (starttime (abx ! i)) (charttime (bacterio ! j))
          \<le> diff_hr (starttime (abx ! i)) (charttime (bacterio ! k)) \<and>
        (k < j \<longrightarrow> diff_hr (starttime (abx ! i)) (charttime (bacterio ! j))
          < diff_hr (starttime (abx ! i)) (charttime (bacterio ! k)))"
  shows "filter (\<lambda>r. abx_idx r = i) (closest abx bacterio) =
       [\<lparr>p_stay_id = s, p_starttime = starttime (abx ! i), abx_idx = i,
         p_subject_id = b_subject_id (bacterio ! j), p_charttime = charttime (bacterio ! j)\<rparr>]"
proof -
  let ?d = "\<lambda>k. diff_hr (starttime (abx ! i)) (charttime (bacterio ! k))"
  have "\<exists>b\<in>set bacterio. b_stay_id b = Some s"
    using j sj nth_mem by blast
  then obtain j' where j': "j' < length bacterio" "b_stay_id (bacterio ! j') = Some s"
    and row: "filter (\<lambda>r. abx_idx r = i) (closest abx bacterio) =
       [\<lparr>p_stay_id = s, p_starttime = starttime (abx ! i), abx_idx = i,
         p_subject_id = b_subject_id (bacterio ! j'), p_charttime = charttime (bacterio ! j')\<rparr>]"
    and best': "\<forall>k<length bacterio. b_stay_id (bacterio ! k) = Some s \<longrightarrow>
        ?d j' \<le> ?d k \<and> (k < j' \<longrightarrow> ?d j' < ?d k)"
    using closest_row_exists[OF i s] by blast
  have "?d j \<le> ?d j'" "j' < j \<longrightarrow> ?d j < ?d j'" using best j' by blast+
  moreover have "?d j' \<le> ?d j" "j < j' \<longrightarrow> ?d j' < ?d j" using best' j sj by blast+
  ultimately have "j' = j" by (meson leD linorder_neqE_nat)
  then show ?thesis using row by simp
qed

section \<open>The rows behind an onset record\<close>

lemma drop_duplicates_first_subset: "set (drop_duplicates_first f xs) \<subseteq> set xs"
  by (induction f xs rule: drop_duplicates_first.induct) auto

lemma drop_duplicates_first_distinct: "distinct (map f (drop_duplicates_first f xs))"
proof (induction f xs rule: drop_duplicates_first.induct)
  case (1 f)
  then show ?case by simp
next
  case (2 f x xs)
  have "set (drop_duplicates_first f (filter (\<lambda>y. f y \<noteq> f x) xs)) \<subseteq> set (filter (\<lambda>y. f y \<noteq> f x) xs)"
    by (rule drop_duplicates_first_subset)
  then have "f x \<notin> f ` set (drop_duplicates_first f (filter (\<lambda>y. f y \<noteq> f x) xs))"
    by auto
  moreover have "distinct (map f (drop_duplicates_first f (filter (\<lambda>y. f y \<noteq> f x) xs)))"
    by (rule 2)
  ultimately show ?case by simp
qed

lemma mk_pair_sel:
  "p_stay_id (mk_pair s i a b) = s" "p_starttime (mk_pair s i a b) = starttime a"
  "abx_idx (mk_pair s i a b) = i" "p_subject_id (mk_pair s i a b) = b_subject_id b"
  "p_charttime (mk_pair s i a b) = charttime b"
  by (simp_all add: mk_pair_def)

lemma merged_row_origin:
  assumes "r \<in> set (merged abx bacterio)"
  shows "\<exists>i j s. i < length abx \<and> j < length bacterio \<and>
     a_stay_id (abx ! i) = Some s \<and> b_stay_id (bacterio ! j) = Some s \<and>
     r = mk_pair s i (abx ! i) (bacterio ! j)"
proof -
  let ?i = "abx_idx r"
  have r: "r \<in> set (filter (\<lambda>r'. abx_idx r' = ?i) (merged abx bacterio))"
    using assms by simp
  have sel: "filter (\<lambda>r'. abx_idx r' = ?i) (merged abx bacterio) =
    (if ?i < length abx
     then (case a_stay_id (abx ! ?i) of None \<Rightarrow> []
           | Some s \<Rightarrow> map (mk_pair s ?i (abx ! ?i)) (filter (\<lambda>b. b_stay_id b = Some s) bacterio))
     else [])"
    by (rule merged_select)
  have r': "r \<in> set (if ?i < length abx
     then (case a_stay_id (abx ! ?i) of None \<Rightarrow> []
           | Some s \<Rightarrow> map (mk_pair s ?i (abx ! ?i)) (filter (\<lambda>b. b_stay_id b = Some s) bacterio))
     else [])"
    using r by (simp only: sel)
  have i: "?i < length abx"
  proof (rule ccontr)
    assume "\<not> ?i < length abx"
    then show False using r' by simp
  qed
  obtain s where s: "a_stay_id (abx ! ?i) = Some s"
    and rs: "r \<in> set (map (mk_pair s ?i (abx ! ?i)) (filter (\<lambda>b. b_stay_id b = Some s) bacterio))"
    using r' i by (cases "a_stay_id (abx ! ?i)") simp_all
  from rs obtain b where b: "b \<in> set bacterio" "b_stay_id b = Some s" "r = mk_pair s ?i (abx ! ?i) b"
    by auto
  from b(1) obtain j where j: "j < length bacterio" "bacterio ! j = b"
    using in_set_conv_nth[of b bacterio] by blast
  have "?i < length abx \<and> j < length bacterio \<and>
     a_stay_id (abx ! ?i) = Some s \<and> b_stay_id (bacterio ! j) = Some s \<and>
     r = mk_pair s ?i (abx ! ?i) (bacterio ! j)"
    using i j s b(2,3) by blast
  then show ?thesis by blast
qed

lemma closest_subset: "set (closest abx bacterio) \<subseteq> set (merged abx bacterio)"
  unfolding closest_def using drop_duplicates_first_subset[of abx_idx] by force

lemma valid_subset: "set (valid abx bacterio) \<subseteq> set (closest abx bacterio)"
  by (auto simp: valid_def)

lemma closest_distinct: "distinct (map abx_idx (closest abx bacterio))"
  unfolding closest_def by (rule drop_duplicates_first_distinct)

lemma valid_distinct: "distinct (map abx_idx (valid abx bacterio))"
  unfolding valid_def using closest_distinct[of abx bacterio] by (simp add: distinct_map_filter)

lemma onset_record_origin:
  assumes "rec \<in> set (find_infection_onset abx bacterio)"
  shows "\<exists>r\<in>set (valid abx bacterio).
     rec = \<lparr>o_subject_id = p_subject_id r, o_stay_id = p_stay_id r, onset_time = onset_of r\<rparr>"
proof -
  have "set (drop_duplicates_first p_stay_id (sort_key abx_idx (valid abx bacterio)))
      \<subseteq> set (valid abx bacterio)"
    using drop_duplicates_first_subset[of p_stay_id "sort_key abx_idx (valid abx bacterio)"] by simp
  then show ?thesis using assms unfolding find_infection_onset_def by auto
qed

lemma onset_of_cases: "onset_of r = p_starttime r \<or> onset_of r = p_charttime r"
  by (simp add: onset_of_def)

lemma sort_key_hd_least:
  assumes "y \<in> set ys"
  shows "\<exists>m\<in>set ys. take 1 (sort_key f ys) = [m] \<and> f m \<le> f y"
proof -
  have ne: "ys \<noteq> []" using assms by auto
  obtain j where j: "j < length ys" "take 1 (sort_key f ys) = [ys ! j]"
      "\<forall>k<length ys. f (ys ! j) \<le> f (ys ! k)"
    using sort_key_take1[OF ne, of f] by blast
  obtain k where k: "k < length ys" "ys ! k = y"
    using assms in_set_conv_nth[of y ys] by blast
  have "f (ys ! j) \<le> f y" using j(3) k by blast
  then show ?thesis using j(1,2) nth_mem[OF j(1)] by blast
qed

lemma find_infection_onset_filter:
  "filter (\<lambda>rec. o_stay_id rec = k) (find_infection_onset abx bacterio) =
     map (\<lambda>r. \<lparr>o_subject_id = p_subject_id r, o_stay_id = p_stay_id r, onset_time = onset_of r\<rparr>)
       (take 1 (sort_key abx_idx (filter (\<lambda>r. p_stay_id r = k) (valid abx bacterio))))"
proof -
  have "filter (\<lambda>rec. o_stay_id rec = k) (find_infection_onset abx bacterio) =
     map (\<lambda>r. \<lparr>o_subject_id = p_subject_id r, o_stay_id = p_stay_id r, onset_time = onset_of r\<rparr>)
       (filter (\<lambda>r. p_stay_id r = k)
          (drop_duplicates_first p_stay_id (sort_key abx_idx (valid abx bacterio))))"
    by (simp add: find_infection_onset_def filter_map o_def)
  also have "filter (\<lambda>r. p_stay_id r = k)
          (drop_duplicates_first p_stay_id (sort_key abx_idx (valid abx bacterio)))
       = take 1 (filter (\<lambda>r. p_stay_id r = k) (sort_key abx_idx (valid abx bacterio)))"
    by (rule drop_duplicates_first_filter)
  also have "filter (\<lambda>r. p_stay_id r = k) (sort_key abx_idx (valid abx bacterio))
       = sort_key abx_idx (filter (\<lambda>r. p_stay_id r = k) (valid abx bacterio))"
    by (rule filter_sort)
  finally show ?thesis .
qed

lemma find_infection_onset_distinct:
  "distinct (map o_stay_id (find_infection_onset abx bacterio))"
proof -
  have "map o_stay_id (find_infection_onset abx bacterio) =
     map p_stay_id (drop_duplicates_first p_stay_id (sort_key abx_idx (valid abx bacterio)))"
    by (simp add: find_infection_onset_def o_def)
  then show ?thesis by (simp add: drop_duplicates_first_distinct)
qed

section \<open>The claims\<close>

text \<open>
  C1, as stated, fails. Stay 1 is \<open>[1000, 5000]\<close>; the culture event at 900 and the antibiotic
  event at 950 are both of stay 1. The antibiotic is given after the culture is taken, so the
  first condition (line 183) is false and the second (line 184) holds: the record emitted for
  stay 1 has onset time 900, the culture's time, not 950.
\<close>

theorem scenario_onset_not_950:
  "find_infection_onset [\<lparr>a_hadm_id = Some 3, starttime = 950, a_stay_id = Some 1\<rparr>]
      [\<lparr>b_subject_id = Some 7, charttime = 900, b_stay_id = Some 1\<rparr>]
     \<noteq> [\<lparr>o_subject_id = Some 7, o_stay_id = 1, onset_time = 950\<rparr>] \<and>
   map onset_time (find_infection_onset [\<lparr>a_hadm_id = Some 3, starttime = 950, a_stay_id = Some 1\<rparr>]
      [\<lparr>b_subject_id = Some 7, charttime = 900, b_stay_id = Some 1\<rparr>]) = [900]"
  by code_simp

text \<open>
  C1, amended: in that scenario both events are resolved to stay 1 (the culture at 900 and the
  antibiotic at 950 lie within 48 hours of \<open>[1000, 5000]\<close>), and \<open>find_infection_onset\<close> emits
  exactly one record, for stay 1, with onset time 900.
\<close>

theorem scenario_onset_is_culture_time:
  "fill_missing_icustay_ids [\<lparr>b_subject_id = Some 7, charttime = 900, b_stay_id = None\<rparr>]
      [\<lparr>d_subject_id = Some 7, d_hadm_id = Some 3, d_stay_id = 1, intime = 1000, outtime = 5000\<rparr>]
      (Without_stay_id [\<lparr>a_hadm_id = Some 3, starttime = 950\<rparr>])
     = Inr ([\<lparr>b_subject_id = Some 7, charttime = 900, b_stay_id = Some 1\<rparr>],
            [\<lparr>a_hadm_id = Some 3, starttime = 950, a_stay_id = Some 1\<rparr>]) \<and>
   find_infection_onset [\<lparr>a_hadm_id = Some 3, starttime = 950, a_stay_id = Some 1\<rparr>]
      [\<lparr>b_subject_id = Some 7, charttime = 900, b_stay_id = Some 1\<rparr>]
     = [\<lparr>o_subject_id = Some 7, o_stay_id = 1, onset_time = 900\<rparr>]"
  by code_simp

text \<open>
  C2. The culture path does what the claim says: a row of \<open>bacterio\<close> that carries a \<open>stay_id\<close>
  comes back unchanged (lemma \<open>fill_bacterio_keeps_stay_id\<close>). The antibiotic path does not: it
  has neither the filter of line 108 nor the drop of line 112, and on a frame \<open>abx\<close> with a
  column \<open>stay_id\<close> it raises \<open>KeyError\<close> at line 148. At the input below the antibiotic event
  carries stay 9; the claim, like the docstring (fill in the missing ids of \<open>abx\<close>), asks for the
  event to come back with stay 9, and the call returns no frame at all.
\<close>

theorem abx_with_stay_id_raises:
  "fill_missing_icustay_ids []
      [\<lparr>d_subject_id = Some 7, d_hadm_id = Some 3, d_stay_id = 1, intime = 1000, outtime = 5000\<rparr>]
      (With_stay_id [\<lparr>a_hadm_id = Some 3, starttime = 950, a_stay_id = Some 9\<rparr>])
     = Inl (KeyError ''stay_id'')"
  by code_simp

text \<open>
  C3. For a row \<open>r\<close> of \<open>closest\<close> (the nearest culture of one antibiotic event): if the
  difference in hours is at most 24 and \<open>starttime \<le> charttime\<close>, the row is kept in \<open>valid\<close> and
  its onset time is \<open>starttime\<close>; otherwise, if the difference is at most 72 and
  \<open>charttime \<le> starttime\<close>, it is kept and its onset time is \<open>charttime\<close>; otherwise it is not in
  \<open>valid\<close>. Both bounds are reached with \<open>\<le>\<close>, and equal time stamps give \<open>starttime\<close>.
\<close>

theorem causal_test:
  assumes "r \<in> set (closest abx bacterio)"
  shows "(diff_hr (p_starttime r) (p_charttime r) \<le> 24 \<and> p_starttime r \<le> p_charttime r \<longrightarrow>
           r \<in> set (valid abx bacterio) \<and> onset_of r = p_starttime r) \<and>
         (\<not> (diff_hr (p_starttime r) (p_charttime r) \<le> 24 \<and> p_starttime r \<le> p_charttime r) \<and>
          diff_hr (p_starttime r) (p_charttime r) \<le> 72 \<and> p_charttime r \<le> p_starttime r \<longrightarrow>
           r \<in> set (valid abx bacterio) \<and> onset_of r = p_charttime r) \<and>
         (\<not> (diff_hr (p_starttime r) (p_charttime r) \<le> 24 \<and> p_starttime r \<le> p_charttime r) \<and>
          \<not> (diff_hr (p_starttime r) (p_charttime r) \<le> 72 \<and> p_charttime r \<le> p_starttime r) \<longrightarrow>
           r \<notin> set (valid abx bacterio)) \<and>
         (p_starttime r = p_charttime r \<longrightarrow>
           r \<in> set (valid abx bacterio) \<and> onset_of r = p_starttime r)"
proof -
  have v: "r \<in> set (valid abx bacterio) \<longleftrightarrow> cond1 r \<or> cond2 r"
    using assms by (simp add: valid_def)
  have c1: "cond1 r \<longleftrightarrow>
      diff_hr (p_starttime r) (p_charttime r) \<le> 24 \<and> p_starttime r \<le> p_charttime r"
    by (simp add: cond1_def)
  have c2: "cond2 r \<longleftrightarrow>
      diff_hr (p_starttime r) (p_charttime r) \<le> 72 \<and> p_charttime r \<le> p_starttime r"
    by (simp add: cond2_def)
  have o1: "cond1 r \<Longrightarrow> onset_of r = p_starttime r"
    and o2: "\<not> cond1 r \<Longrightarrow> onset_of r = p_charttime r"
    by (simp_all add: onset_of_def)
  have eq: "p_starttime r = p_charttime r \<Longrightarrow> cond1 r"
    by (simp add: cond1_def diff_hr_def)
  show ?thesis
    using v c1 c2 o1 o2 eq by blast
qed

text \<open>
  C3 at concrete inputs: an antibiotic exactly 24 hours before the culture gives the
  antibiotic's time, one second more gives no candidate; an antibiotic exactly 72 hours after
  the culture gives the culture's time, one second more gives no candidate; equal time stamps
  give the antibiotic's time.
\<close>

theorem causal_test_witness:
  "onset_of \<lparr>p_stay_id = 1, p_starttime = 100, abx_idx = 0, p_subject_id = Some 7,
              p_charttime = 100 + 24 * 3600\<rparr> = 100 \<and>
   \<lparr>p_stay_id = 1, p_starttime = 100, abx_idx = 0, p_subject_id = Some 7, p_charttime = 100 + 24 * 3600\<rparr>
     \<in> set (valid [\<lparr>a_hadm_id = Some 3, starttime = 100, a_stay_id = Some 1\<rparr>]
                   [\<lparr>b_subject_id = Some 7, charttime = 100 + 24 * 3600, b_stay_id = Some 1\<rparr>]) \<and>
   \<lparr>p_stay_id = 1, p_starttime = 100, abx_idx = 0, p_subject_id = Some 7, p_charttime = 101 + 24 * 3600\<rparr>
     \<notin> set (valid [\<lparr>a_hadm_id = Some 3, starttime = 100, a_stay_id = Some 1\<rparr>]
                   [\<lparr>b_subject_id = Some 7, charttime = 101 + 24 * 3600, b_stay_id = Some 1\<rparr>]) \<and>
   onset_of \<lparr>p_stay_id = 1, p_starttime = 900 + 72 * 3600, abx_idx = 0, p_subject_id = Some 7,
              p_charttime = 900\<rparr> = 900 \<and>
   \<lparr>p_stay_id = 1, p_starttime = 900 + 72 * 3600, abx_idx = 0, p_subject_id = Some 7, p_charttime = 900\<rparr>
     \<in> set (valid [\<lparr>a_hadm_id = Some 3, starttime = 900 + 72 * 3600, a_stay_id = Some 1\<rparr>]
                   [\<lparr>b_subject_id = Some 7, charttime = 900, b_stay_id = Some 1\<rparr>]) \<and>
   \<lparr>p_stay_id = 1, p_starttime = 901 + 72 * 3600, abx_idx = 0, p_subject_id = Some 7, p_charttime = 900\<rparr>
     \<notin> set (valid [\<lparr>a_hadm_id = Some 3, starttime = 901 + 72 * 3600, a_stay_id = Some 1\<rparr>]
                   [\<lparr>b_subject_id = Some 7, charttime = 900, b_stay_id = Some 1\<rparr>]) \<and>
   onset_of \<lparr>p_stay_id = 1, p_starttime = 500, abx_idx = 0, p_subject_id = Some 7,
              p_charttime = 500\<rparr> = 500"
proof -
  let ?a = "\<lambda>t. [\<lparr>a_hadm_id = Some 3, starttime = t, a_stay_id = Some 1\<rparr>]"
  let ?b = "\<lambda>t. [\<lparr>b_subject_id = Some 7, charttime = t, b_stay_id = Some 1\<rparr>]"
  let ?r = "\<lambda>st ct. \<lparr>p_stay_id = 1, p_starttime = st, abx_idx = 0, p_subject_id = Some 7, p_charttime = ct\<rparr>"
  have c1: "?r 100 (100 + 24 * 3600) \<in> set (closest (?a 100) (?b (100 + 24 * 3600)))" by code_simp
  have c2: "?r 100 (101 + 24 * 3600) \<in> set (closest (?a 100) (?b (101 + 24 * 3600)))" by code_simp
  have c3: "?r (900 + 72 * 3600) 900 \<in> set (closest (?a (900 + 72 * 3600)) (?b 900))" by code_simp
  have c4: "?r (901 + 72 * 3600) 900 \<in> set (closest (?a (901 + 72 * 3600)) (?b 900))" by code_simp
  have c5: "?r 500 500 \<in> set (closest (?a 500) (?b 500))" by code_simp
  have w1: "?r 100 (100 + 24 * 3600) \<in> set (valid (?a 100) (?b (100 + 24 * 3600))) \<and>
            onset_of (?r 100 (100 + 24 * 3600)) = 100"
    using causal_test[OF c1] by (simp add: diff_hr_def)
  have w2: "?r 100 (101 + 24 * 3600) \<notin> set (valid (?a 100) (?b (101 + 24 * 3600)))"
    using causal_test[OF c2] by (simp add: diff_hr_def)
  have w3: "?r (900 + 72 * 3600) 900 \<in> set (valid (?a (900 + 72 * 3600)) (?b 900)) \<and>
            onset_of (?r (900 + 72 * 3600) 900) = 900"
    using causal_test[OF c3] by (simp add: diff_hr_def)
  have w4: "?r (901 + 72 * 3600) 900 \<notin> set (valid (?a (901 + 72 * 3600)) (?b 900))"
    using causal_test[OF c4] by (simp add: diff_hr_def)
  have w5: "onset_of (?r 500 500) = 500"
    using causal_test[OF c5] by simp
  show ?thesis using w1 w2 w3 w4 w5 by simp
qed

text \<open>
  C4. Culture path: for the row at label \<open>i\<close> with a missing \<open>stay_id\<close> and a stay \<open>s\<close> of
  \<open>demog\<close> with the same, non-missing \<open>subject_id\<close>, the pair is a row of \<open>valid_bact\<close> if and
  only if \<open>charttime\<close> lies in \<open>[intime s - 48 * 3600, outtime s + 48 * 3600]\<close>, ends included, or
  \<open>demog\<close> has exactly one row with that \<open>subject_id\<close>; and when \<open>valid_bact\<close> has no row of label
  \<open>i\<close>, the \<open>stay_id\<close> of row \<open>i\<close> is still missing after the call. Antibiotic path: the same with
  \<open>hadm_id\<close>, \<open>starttime\<close> and \<open>valid_abx\<close>, for every row of \<open>abx\<close>.
\<close>

theorem candidate_valid_iff:
  "(i < length bacterio \<and> b_stay_id (bacterio ! i) = None \<and> s \<in> set demog \<and>
      d_subject_id s = b_subject_id (bacterio ! i) \<and> d_subject_id s \<noteq> None \<longrightarrow>
      ((\<exists>c. ((i, bacterio ! i), (s, c)) \<in> set (valid_bact bacterio demog)) \<longleftrightarrow>
         (intime s - 48 * 3600 \<le> charttime (bacterio ! i) \<and>
          charttime (bacterio ! i) \<le> outtime s + 48 * 3600) \<or>
         length (filter (\<lambda>s'. d_subject_id s' = d_subject_id s) demog) = 1)) \<and>
   (i < length bacterio \<and> b_stay_id (bacterio ! i) = None \<and>
      (\<forall>z\<in>set (valid_bact bacterio demog). fst (fst z) \<noteq> i) \<longrightarrow>
      b_stay_id (fill_bacterio bacterio demog ! i) = None) \<and>
   (j < length evs \<and> s \<in> set demog \<and>
      d_hadm_id s = a_hadm_id (evs ! j) \<and> d_hadm_id s \<noteq> None \<longrightarrow>
      ((\<exists>c. ((j, evs ! j), (s, c)) \<in> set (valid_abx evs demog)) \<longleftrightarrow>
         (intime s - 48 * 3600 \<le> starttime (evs ! j) \<and>
          starttime (evs ! j) \<le> outtime s + 48 * 3600) \<or>
         length (filter (\<lambda>s'. d_hadm_id s' = d_hadm_id s) demog) = 1)) \<and>
   (j < length evs \<and> (\<forall>z\<in>set (valid_abx evs demog). fst (fst z) \<noteq> j) \<longrightarrow>
      (\<exists>out. fill_abx (Without_stay_id evs) demog = Inr out \<and> a_stay_id (out ! j) = None))"
proof (intro conjI impI)
  assume "i < length bacterio \<and> b_stay_id (bacterio ! i) = None \<and> s \<in> set demog \<and>
      d_subject_id s = b_subject_id (bacterio ! i) \<and> d_subject_id s \<noteq> None"
  then have "i < length bacterio" "b_stay_id (bacterio ! i) = None" "s \<in> set demog"
      "d_subject_id s = b_subject_id (bacterio ! i)" "b_subject_id (bacterio ! i) \<noteq> None"
    by metis+
  then show "(\<exists>c. ((i, bacterio ! i), (s, c)) \<in> set (valid_bact bacterio demog)) \<longleftrightarrow>
         (intime s - 48 * 3600 \<le> charttime (bacterio ! i) \<and>
          charttime (bacterio ! i) \<le> outtime s + 48 * 3600) \<or>
         length (filter (\<lambda>s'. d_subject_id s' = d_subject_id s) demog) = 1"
    by (simp add: in_valid_bact_iff in_candidates_iff del: not_None_eq)
next
  assume "i < length bacterio \<and> b_stay_id (bacterio ! i) = None \<and>
      (\<forall>z\<in>set (valid_bact bacterio demog). fst (fst z) \<noteq> i)"
  then show "b_stay_id (fill_bacterio bacterio demog ! i) = None"
    using no_rows_candidates_bact[of i bacterio demog]
    by (simp add: fill_bacterio_nth Let_def)
next
  assume "j < length evs \<and> s \<in> set demog \<and>
      d_hadm_id s = a_hadm_id (evs ! j) \<and> d_hadm_id s \<noteq> None"
  then have "j < length evs" "s \<in> set demog"
      "d_hadm_id s = a_hadm_id (evs ! j)" "a_hadm_id (evs ! j) \<noteq> None"
    by metis+
  then show "(\<exists>c. ((j, evs ! j), (s, c)) \<in> set (valid_abx evs demog)) \<longleftrightarrow>
         (intime s - 48 * 3600 \<le> starttime (evs ! j) \<and>
          starttime (evs ! j) \<le> outtime s + 48 * 3600) \<or>
         length (filter (\<lambda>s'. d_hadm_id s' = d_hadm_id s) demog) = 1"
    by (simp add: in_valid_abx_iff in_candidates_iff del: not_None_eq)
next
  assume "j < length evs \<and> (\<forall>z\<in>set (valid_abx evs demog). fst (fst z) \<noteq> j)"
  then show "\<exists>out. fill_abx (Without_stay_id evs) demog = Inr out \<and> a_stay_id (out ! j) = None"
    using no_rows_candidates_abx[of j evs demog] fill_abx_nth[of j evs demog]
    by (auto simp: Let_def)
qed

text \<open>
  C4 at concrete inputs: a culture a billion seconds away from the only stay of its subject is
  valid; with two stays of the subject, both far away, it stays unresolved; an antibiotic
  exactly at \<open>outtime + 48 * 3600\<close> of the first of two stays is valid for it; one second later
  it is not, and stays unresolved.
\<close>

theorem candidate_valid_iff_witness:
  "(\<exists>c. ((0, [\<lparr>b_subject_id = Some 7, charttime = 1000000000, b_stay_id = None\<rparr>] ! 0),
          (\<lparr>d_subject_id = Some 7, d_hadm_id = Some 3, d_stay_id = 1, intime = 1000, outtime = 5000\<rparr>, c))
        \<in> set (valid_bact [\<lparr>b_subject_id = Some 7, charttime = 1000000000, b_stay_id = None\<rparr>]
                 [\<lparr>d_subject_id = Some 7, d_hadm_id = Some 3, d_stay_id = 1, intime = 1000, outtime = 5000\<rparr>])) \<and>
   b_stay_id (fill_bacterio [\<lparr>b_subject_id = Some 7, charttime = 1000000000, b_stay_id = None\<rparr>]
      [\<lparr>d_subject_id = Some 7, d_hadm_id = Some 3, d_stay_id = 1, intime = 1000, outtime = 5000\<rparr>,
       \<lparr>d_subject_id = Some 7, d_hadm_id = Some 3, d_stay_id = 2, intime = 100000, outtime = 200000\<rparr>] ! 0)
     = None \<and>
   (\<exists>c. ((0, [\<lparr>a_hadm_id = Some 3, starttime = 5000 + 48 * 3600\<rparr>] ! 0),
          (\<lparr>d_subject_id = Some 7, d_hadm_id = Some 3, d_stay_id = 1, intime = 1000, outtime = 5000\<rparr>, c))
        \<in> set (valid_abx [\<lparr>a_hadm_id = Some 3, starttime = 5000 + 48 * 3600\<rparr>]
                 [\<lparr>d_subject_id = Some 7, d_hadm_id = Some 3, d_stay_id = 1, intime = 1000, outtime = 5000\<rparr>,
                  \<lparr>d_subject_id = Some 7, d_hadm_id = Some 3, d_stay_id = 2, intime = 1000000, outtime = 2000000\<rparr>])) \<and>
   (\<exists>out. fill_abx (Without_stay_id [\<lparr>a_hadm_id = Some 3, starttime = 5001 + 48 * 3600\<rparr>])
                 [\<lparr>d_subject_id = Some 7, d_hadm_id = Some 3, d_stay_id = 1, intime = 1000, outtime = 5000\<rparr>,
                  \<lparr>d_subject_id = Some 7, d_hadm_id = Some 3, d_stay_id = 2, intime = 1000000, outtime = 2000000\<rparr>]
             = Inr out \<and> a_stay_id (out ! 0) = None)"
proof -
  let ?S1 = "\<lparr>d_subject_id = Some 7, d_hadm_id = Some 3, d_stay_id = 1, intime = 1000, outtime = 5000\<rparr>"
  let ?S2 = "\<lparr>d_subject_id = Some 7, d_hadm_id = Some 3, d_stay_id = 2, intime = 100000, outtime = 200000\<rparr>"
  let ?S3 = "\<lparr>d_subject_id = Some 7, d_hadm_id = Some 3, d_stay_id = 2, intime = 1000000, outtime = 2000000\<rparr>"
  let ?B = "[\<lparr>b_subject_id = Some 7, charttime = 1000000000, b_stay_id = None\<rparr>]"
  let ?E = "[\<lparr>a_hadm_id = Some 3, starttime = 5000 + 48 * 3600\<rparr>]"
  let ?F = "[\<lparr>a_hadm_id = Some 3, starttime = 5001 + 48 * 3600\<rparr>]"
  have a: "\<exists>c. ((0, ?B ! 0), (?S1, c)) \<in> set (valid_bact ?B [?S1])"
    using candidate_valid_iff[where i = 0 and bacterio = ?B and s = ?S1 and demog = "[?S1]"
        and j = 0 and evs = "[]"]
    by simp
  have "\<forall>z\<in>set (valid_bact ?B [?S1, ?S2]). fst (fst z) \<noteq> 0" by code_simp
  then have b: "b_stay_id (fill_bacterio ?B [?S1, ?S2] ! 0) = None"
    using candidate_valid_iff[where i = 0 and bacterio = ?B and s = ?S1 and demog = "[?S1, ?S2]"
        and j = 0 and evs = "[]"]
    by simp
  have c: "\<exists>c. ((0, ?E ! 0), (?S1, c)) \<in> set (valid_abx ?E [?S1, ?S3])"
    using candidate_valid_iff[where i = 0 and bacterio = "[]" and s = ?S1 and demog = "[?S1, ?S3]"
        and j = 0 and evs = ?E]
    by simp
  have "\<forall>z\<in>set (valid_abx ?F [?S1, ?S3]). fst (fst z) \<noteq> 0" by code_simp
  then have d: "\<exists>out. fill_abx (Without_stay_id ?F) [?S1, ?S3] = Inr out \<and> a_stay_id (out ! 0) = None"
    using candidate_valid_iff[where i = 0 and bacterio = "[]" and s = ?S1 and demog = "[?S1, ?S3]"
        and j = 0 and evs = ?F]
    by simp
  show ?thesis using a b c d by blast
qed

text \<open>
  C5. When \<open>valid_bact\<close> has rows of label \<open>i\<close>, the \<open>stay_id\<close> written to row \<open>i\<close> of
  \<open>bacterio\<close> is that of the last of them in the order of the join (line 126 writes them one
  after the other); when \<open>valid_abx\<close> has rows of label \<open>j\<close>, the \<open>stay_id\<close> written to row \<open>j\<close> of
  \<open>abx\<close> is that of the last of them (line 145 keeps the last row of every label).
\<close>

theorem last_valid_candidate_wins:
  "(filter (\<lambda>z. fst (fst z) = i) (valid_bact bacterio demog) \<noteq> [] \<longrightarrow>
      b_stay_id (fill_bacterio bacterio demog ! i) =
        Some (d_stay_id (fst (snd (last (filter (\<lambda>z. fst (fst z) = i) (valid_bact bacterio demog))))))) \<and>
   (filter (\<lambda>z. fst (fst z) = j) (valid_abx evs demog) \<noteq> [] \<longrightarrow>
      (\<exists>out. fill_abx (Without_stay_id evs) demog = Inr out \<and>
         a_stay_id (out ! j) =
           Some (d_stay_id (fst (snd (last (filter (\<lambda>z. fst (fst z) = j) (valid_abx evs demog))))))))"
proof (intro conjI impI)
  assume ne: "filter (\<lambda>z. fst (fst z) = i) (valid_bact bacterio demog) \<noteq> []"
  then have i: "i < length bacterio" "b_stay_id (bacterio ! i) = None"
    and cs: "candidates d_subject_id demog (b_subject_id (bacterio ! i)) (charttime (bacterio ! i)) \<noteq> []"
    unfolding valid_bact_select by (auto split: if_splits)
  show "b_stay_id (fill_bacterio bacterio demog ! i) =
        Some (d_stay_id (fst (snd (last (filter (\<lambda>z. fst (fst z) = i) (valid_bact bacterio demog))))))"
    using i cs by (simp add: fill_bacterio_nth valid_bact_select Let_def last_map)
next
  assume ne: "filter (\<lambda>z. fst (fst z) = j) (valid_abx evs demog) \<noteq> []"
  then have j: "j < length evs"
    and cs: "candidates d_hadm_id demog (a_hadm_id (evs ! j)) (starttime (evs ! j)) \<noteq> []"
    unfolding valid_abx_select by (auto split: if_splits)
  show "\<exists>out. fill_abx (Without_stay_id evs) demog = Inr out \<and>
         a_stay_id (out ! j) =
           Some (d_stay_id (fst (snd (last (filter (\<lambda>z. fst (fst z) = j) (valid_abx evs demog))))))"
    using j cs fill_abx_nth[of j evs demog]
    by (auto simp: valid_abx_select Let_def last_map)
qed

text \<open>
  C5 at a concrete input: both stays of the subject are within 48 hours of the event; stay 1
  starts within two minutes of it and stay 2 more than a day later; stay 2, the later row of
  \<open>demog\<close>, is assigned in both paths.
\<close>

theorem last_valid_candidate_wins_witness:
  "b_stay_id (fill_bacterio [\<lparr>b_subject_id = Some 7, charttime = 900, b_stay_id = None\<rparr>]
      [\<lparr>d_subject_id = Some 7, d_hadm_id = Some 3, d_stay_id = 1, intime = 1000, outtime = 5000\<rparr>,
       \<lparr>d_subject_id = Some 7, d_hadm_id = Some 3, d_stay_id = 2, intime = 100000, outtime = 200000\<rparr>] ! 0)
     = Some 2 \<and>
   (\<exists>out. fill_abx (Without_stay_id [\<lparr>a_hadm_id = Some 3, starttime = 950\<rparr>])
      [\<lparr>d_subject_id = Some 7, d_hadm_id = Some 3, d_stay_id = 1, intime = 1000, outtime = 5000\<rparr>,
       \<lparr>d_subject_id = Some 7, d_hadm_id = Some 3, d_stay_id = 2, intime = 100000, outtime = 200000\<rparr>]
       = Inr out \<and> a_stay_id (out ! 0) = Some 2)"
proof -
  let ?D = "[\<lparr>d_subject_id = Some 7, d_hadm_id = Some 3, d_stay_id = 1, intime = 1000, outtime = 5000\<rparr>,
       \<lparr>d_subject_id = Some 7, d_hadm_id = Some 3, d_stay_id = 2, intime = 100000, outtime = 200000\<rparr>]"
  let ?B = "[\<lparr>b_subject_id = Some 7, charttime = 900, b_stay_id = None\<rparr>]"
  let ?E = "[\<lparr>a_hadm_id = Some 3, starttime = 950\<rparr>]"
  have hb: "filter (\<lambda>z. fst (fst z) = 0) (valid_bact ?B ?D) \<noteq> []" by code_simp
  have vb: "d_stay_id (fst (snd (last (filter (\<lambda>z. fst (fst z) = 0) (valid_bact ?B ?D))))) = 2"
    by code_simp
  have ha: "filter (\<lambda>z. fst (fst z) = 0) (valid_abx ?E ?D) \<noteq> []" by code_simp
  have va: "d_stay_id (fst (snd (last (filter (\<lambda>z. fst (fst z) = 0) (valid_abx ?E ?D))))) = 2"
    by code_simp
  show ?thesis
    using last_valid_candidate_wins[where i = 0 and bacterio = ?B and demog = ?D and j = 0 and evs = ?E]
      hb vb ha va
    by simp
qed

text \<open>
  C6, as stated, fails for an antibiotic event whose stay has no culture: the inner join of
  line 173 has no pairing for it, so none is retained, although the event has a \<open>stay_id\<close>.
\<close>

theorem antibiotic_without_culture_keeps_no_pairing:
  "a_stay_id ([\<lparr>a_hadm_id = Some 3, starttime = 100, a_stay_id = Some 1\<rparr>] ! 0) = Some 1 \<and>
   closest [\<lparr>a_hadm_id = Some 3, starttime = 100, a_stay_id = Some 1\<rparr>]
           [\<lparr>b_subject_id = Some 6, charttime = 100, b_stay_id = Some 2\<rparr>] = []"
  by code_simp

text \<open>
  C6, amended. Let the antibiotic row at label \<open>i\<close> be of stay \<open>s\<close>. When no culture is of stay
  \<open>s\<close>, no row of \<open>closest\<close> carries the label. When some culture is of stay \<open>s\<close>, exactly one row
  of \<open>closest\<close> carries it: the pairing with a culture row of stay \<open>s\<close> at a position \<open>m\<close> of
  \<open>bacterio\<close> such that no culture of stay \<open>s\<close> has a smaller absolute difference of the two time
  stamps, in hours, and every culture of stay \<open>s\<close> before position \<open>m\<close> has a strictly larger one
  (on a tie the pairing met first in the join is kept). And whenever a position \<open>j\<close> has these
  properties, the row kept is the pairing with \<open>bacterio ! j\<close>. The difference in hours is written
  out in the statement.
\<close>

theorem nearest_culture_pairing:
  assumes i: "i < length abx" and s: "a_stay_id (abx ! i) = Some s"
  shows
   "((\<forall>b\<in>set bacterio. b_stay_id b \<noteq> Some s) \<longrightarrow>
       filter (\<lambda>r. abx_idx r = i) (closest abx bacterio) = []) \<and>
    ((\<exists>b\<in>set bacterio. b_stay_id b = Some s) \<longrightarrow>
       (\<exists>m<length bacterio. b_stay_id (bacterio ! m) = Some s \<and>
          filter (\<lambda>r. abx_idx r = i) (closest abx bacterio) =
            [\<lparr>p_stay_id = s, p_starttime = starttime (abx ! i), abx_idx = i,
              p_subject_id = b_subject_id (bacterio ! m), p_charttime = charttime (bacterio ! m)\<rparr>] \<and>
          (\<forall>k<length bacterio. b_stay_id (bacterio ! k) = Some s \<longrightarrow>
             (of_int \<bar>starttime (abx ! i) - charttime (bacterio ! m)\<bar> :: rat) / 3600
               \<le> of_int \<bar>starttime (abx ! i) - charttime (bacterio ! k)\<bar> / 3600 \<and>
             (k < m \<longrightarrow>
               (of_int \<bar>starttime (abx ! i) - charttime (bacterio ! m)\<bar> :: rat) / 3600
                 < of_int \<bar>starttime (abx ! i) - charttime (bacterio ! k)\<bar> / 3600)))) \<and>
    (j < length bacterio \<and> b_stay_id (bacterio ! j) = Some s \<and>
       (\<forall>k<length bacterio. b_stay_id (bacterio ! k) = Some s \<longrightarrow>
          (of_int \<bar>starttime (abx ! i) - charttime (bacterio ! j)\<bar> :: rat) / 3600
            \<le> of_int \<bar>starttime (abx ! i) - charttime (bacterio ! k)\<bar> / 3600 \<and>
          (k < j \<longrightarrow>
            (of_int \<bar>starttime (abx ! i) - charttime (bacterio ! j)\<bar> :: rat) / 3600
              < of_int \<bar>starttime (abx ! i) - charttime (bacterio ! k)\<bar> / 3600)) \<longrightarrow>
       filter (\<lambda>r. abx_idx r = i) (closest abx bacterio) =
         [\<lparr>p_stay_id = s, p_starttime = starttime (abx ! i), abx_idx = i,
           p_subject_id = b_subject_id (bacterio ! j), p_charttime = charttime (bacterio ! j)\<rparr>])"
proof (intro conjI impI)
  assume "\<forall>b\<in>set bacterio. b_stay_id b \<noteq> Some s"
  then show "filter (\<lambda>r. abx_idx r = i) (closest abx bacterio) = []"
    using s by (intro closest_no_row) simp
next
  assume "\<exists>b\<in>set bacterio. b_stay_id b = Some s"
  then show "\<exists>m<length bacterio. b_stay_id (bacterio ! m) = Some s \<and>
          filter (\<lambda>r. abx_idx r = i) (closest abx bacterio) =
            [\<lparr>p_stay_id = s, p_starttime = starttime (abx ! i), abx_idx = i,
              p_subject_id = b_subject_id (bacterio ! m), p_charttime = charttime (bacterio ! m)\<rparr>] \<and>
          (\<forall>k<length bacterio. b_stay_id (bacterio ! k) = Some s \<longrightarrow>
             (of_int \<bar>starttime (abx ! i) - charttime (bacterio ! m)\<bar> :: rat) / 3600
               \<le> of_int \<bar>starttime (abx ! i) - charttime (bacterio ! k)\<bar> / 3600 \<and>
             (k < m \<longrightarrow>
               (of_int \<bar>starttime (abx ! i) - charttime (bacterio ! m)\<bar> :: rat) / 3600
                 < of_int \<bar>starttime (abx ! i) - charttime (bacterio ! k)\<bar> / 3600))"
    using closest_row_exists[OF i s, unfolded diff_hr_def] by blast
next
  assume H: "j < length bacterio \<and> b_stay_id (bacterio ! j) = Some s \<and>
       (\<forall>k<length bacterio. b_stay_id (bacterio ! k) = Some s \<longrightarrow>
          (of_int \<bar>starttime (abx ! i) - charttime (bacterio ! j)\<bar> :: rat) / 3600
            \<le> of_int \<bar>starttime (abx ! i) - charttime (bacterio ! k)\<bar> / 3600 \<and>
          (k < j \<longrightarrow>
            (of_int \<bar>starttime (abx ! i) - charttime (bacterio ! j)\<bar> :: rat) / 3600
              < of_int \<bar>starttime (abx ! i) - charttime (bacterio ! k)\<bar> / 3600))"
  show "filter (\<lambda>r. abx_idx r = i) (closest abx bacterio) =
         [\<lparr>p_stay_id = s, p_starttime = starttime (abx ! i), abx_idx = i,
           p_subject_id = b_subject_id (bacterio ! j), p_charttime = charttime (bacterio ! j)\<rparr>]"
    using closest_row_first_min[OF i s, of j bacterio, unfolded diff_hr_def] H by blast
qed

text \<open>
  C6 at concrete inputs. The antibiotic is at 100. Of the cultures of its stay, the one at 160
  comes first and is 60 seconds away, those at 130 and at 70 are both 30 seconds away: the
  pairing with the culture at 130, the first of the two nearest, is kept. The culture at 100 is
  of another stay; when it is the only culture, no pairing is kept.
\<close>

theorem nearest_culture_pairing_witness:
  "filter (\<lambda>r. abx_idx r = 0)
     (closest [\<lparr>a_hadm_id = Some 3, starttime = 100, a_stay_id = Some 1\<rparr>]
        [\<lparr>b_subject_id = Some 7, charttime = 160, b_stay_id = Some 1\<rparr>,
         \<lparr>b_subject_id = Some 8, charttime = 130, b_stay_id = Some 1\<rparr>,
         \<lparr>b_subject_id = Some 9, charttime = 70, b_stay_id = Some 1\<rparr>,
         \<lparr>b_subject_id = Some 6, charttime = 100, b_stay_id = Some 2\<rparr>]) =
     [\<lparr>p_stay_id = 1, p_starttime = 100, abx_idx = 0, p_subject_id = Some 8, p_charttime = 130\<rparr>] \<and>
   filter (\<lambda>r. abx_idx r = 0)
     (closest [\<lparr>a_hadm_id = Some 3, starttime = 100, a_stay_id = Some 1\<rparr>]
        [\<lparr>b_subject_id = Some 6, charttime = 100, b_stay_id = Some 2\<rparr>]) = [] \<and>
   (\<exists>m<length [\<lparr>b_subject_id = Some 7, charttime = 160, b_stay_id = Some 1\<rparr>,
                \<lparr>b_subject_id = Some 8, charttime = 130, b_stay_id = Some 1\<rparr>].
      filter (\<lambda>r. abx_idx r = 0)
        (closest [\<lparr>a_hadm_id = Some 3, starttime = 100, a_stay_id = Some 1\<rparr>]
           [\<lparr>b_subject_id = Some 7, charttime = 160, b_stay_id = Some 1\<rparr>,
            \<lparr>b_subject_id = Some 8, charttime = 130, b_stay_id = Some 1\<rparr>]) =
        [\<lparr>p_stay_id = 1, p_starttime = 100, abx_idx = 0,
          p_subject_id = b_subject_id ([\<lparr>b_subject_id = Some 7, charttime = 160, b_stay_id = Some 1\<rparr>,
            \<lparr>b_subject_id = Some 8, charttime = 130, b_stay_id = Some 1\<rparr>] ! m),
          p_charttime = charttime ([\<lparr>b_subject_id = Some 7, charttime = 160, b_stay_id = Some 1\<rparr>,
            \<lparr>b_subject_id = Some 8, charttime = 130, b_stay_id = Some 1\<rparr>] ! m)\<rparr>])"
proof -
  let ?A = "[\<lparr>a_hadm_id = Some 3, starttime = 100, a_stay_id = Some 1\<rparr>]"
  let ?B = "[\<lparr>b_subject_id = Some 7, charttime = 160, b_stay_id = Some 1\<rparr>,
         \<lparr>b_subject_id = Some 8, charttime = 130, b_stay_id = Some 1\<rparr>,
         \<lparr>b_subject_id = Some 9, charttime = 70, b_stay_id = Some 1\<rparr>,
         \<lparr>b_subject_id = Some 6, charttime = 100, b_stay_id = Some 2\<rparr>]"
  let ?C = "[\<lparr>b_subject_id = Some 6, charttime = 100, b_stay_id = Some 2\<rparr>]"
  let ?D = "[\<lparr>b_subject_id = Some 7, charttime = 160, b_stay_id = Some 1\<rparr>,
            \<lparr>b_subject_id = Some 8, charttime = 130, b_stay_id = Some 1\<rparr>]"
  have i: "0 < length ?A" and s: "a_stay_id (?A ! 0) = Some 1" by simp_all
  note T = nearest_culture_pairing[OF i s]
  have hyp: "1 < length ?B \<and> b_stay_id (?B ! 1) = Some 1 \<and>
       (\<forall>k<length ?B. b_stay_id (?B ! k) = Some 1 \<longrightarrow>
          (of_int \<bar>starttime (?A ! 0) - charttime (?B ! 1)\<bar> :: rat) / 3600
            \<le> of_int \<bar>starttime (?A ! 0) - charttime (?B ! k)\<bar> / 3600 \<and>
          (k < 1 \<longrightarrow>
            (of_int \<bar>starttime (?A ! 0) - charttime (?B ! 1)\<bar> :: rat) / 3600
              < of_int \<bar>starttime (?A ! 0) - charttime (?B ! k)\<bar> / 3600))"
    by (simp add: All_less_Suc)
  have "filter (\<lambda>r. abx_idx r = 0) (closest ?A ?B) =
         [\<lparr>p_stay_id = 1, p_starttime = starttime (?A ! 0), abx_idx = 0,
           p_subject_id = b_subject_id (?B ! 1), p_charttime = charttime (?B ! 1)\<rparr>]"
    using T[of ?B 1, THEN conjunct2, THEN conjunct2] hyp by (rule mp)
  then have a: "filter (\<lambda>r. abx_idx r = 0) (closest ?A ?B) =
     [\<lparr>p_stay_id = 1, p_starttime = 100, abx_idx = 0, p_subject_id = Some 8, p_charttime = 130\<rparr>]"
    by simp
  have "\<forall>b\<in>set ?C. b_stay_id b \<noteq> Some 1" by simp
  then have b: "filter (\<lambda>r. abx_idx r = 0) (closest ?A ?C) = []"
    using T[of ?C 0, THEN conjunct1] by (rule rev_mp)
  have "\<exists>b\<in>set ?D. b_stay_id b = Some 1" by simp
  then obtain m where m: "m < length ?D"
      "filter (\<lambda>r. abx_idx r = 0) (closest ?A ?D) =
            [\<lparr>p_stay_id = 1, p_starttime = starttime (?A ! 0), abx_idx = 0,
              p_subject_id = b_subject_id (?D ! m), p_charttime = charttime (?D ! m)\<rparr>]"
    using T[of ?D 0, THEN conjunct2, THEN conjunct1] by blast
  have c: "\<exists>m<length ?D. filter (\<lambda>r. abx_idx r = 0) (closest ?A ?D) =
        [\<lparr>p_stay_id = 1, p_starttime = 100, abx_idx = 0,
          p_subject_id = b_subject_id (?D ! m), p_charttime = charttime (?D ! m)\<rparr>]"
    using m by (intro exI[of _ m]) simp
  show ?thesis using a b c by blast
qed

text \<open>
  C7. The records of \<open>find_infection_onset\<close> have pairwise different \<open>stay_id\<close>; and when \<open>r\<close>
  is a row of \<open>valid\<close> (an antibiotic event with a qualifying onset) whose label \<open>abx_idx\<close> is the
  smallest among the rows of \<open>valid\<close> of its stay, the one record of that stay is built from
  \<open>r\<close>, whatever the onset times of the other rows are.
\<close>

theorem one_record_per_stay:
  "distinct (map o_stay_id (find_infection_onset abx bacterio)) \<and>
   (r \<in> set (valid abx bacterio) \<and>
    (\<forall>r'\<in>set (valid abx bacterio). p_stay_id r' = p_stay_id r \<longrightarrow> abx_idx r \<le> abx_idx r') \<longrightarrow>
      filter (\<lambda>rec. o_stay_id rec = p_stay_id r) (find_infection_onset abx bacterio) =
        [\<lparr>o_subject_id = p_subject_id r, o_stay_id = p_stay_id r, onset_time = onset_of r\<rparr>])"
proof (intro conjI impI)
  show "distinct (map o_stay_id (find_infection_onset abx bacterio))"
    by (rule find_infection_onset_distinct)
next
  assume H: "r \<in> set (valid abx bacterio) \<and>
    (\<forall>r'\<in>set (valid abx bacterio). p_stay_id r' = p_stay_id r \<longrightarrow> abx_idx r \<le> abx_idx r')"
  let ?ys = "filter (\<lambda>r'. p_stay_id r' = p_stay_id r) (valid abx bacterio)"
  have rin: "r \<in> set ?ys" using H by simp
  obtain m where m: "m \<in> set ?ys" "take 1 (sort_key abx_idx ?ys) = [m]" "abx_idx m \<le> abx_idx r"
    using sort_key_hd_least[OF rin, of abx_idx] by blast
  have mv: "m \<in> set (valid abx bacterio)" "p_stay_id m = p_stay_id r" using m(1) by simp_all
  then have "abx_idx r \<le> abx_idx m" using H by blast
  then have "abx_idx m = abx_idx r" using m(3) by simp
  moreover have "inj_on abx_idx (set (valid abx bacterio))"
    using valid_distinct[of abx bacterio] by (simp add: distinct_map)
  ultimately have "m = r" using mv(1) H by (meson inj_onD)
  then show "filter (\<lambda>rec. o_stay_id rec = p_stay_id r) (find_infection_onset abx bacterio) =
        [\<lparr>o_subject_id = p_subject_id r, o_stay_id = p_stay_id r, onset_time = onset_of r\<rparr>]"
    using m(2) by (simp add: find_infection_onset_filter)
qed

text \<open>
  C7 at a concrete input: two antibiotic events of stay 1 qualify, the first (label 0) with
  onset time 1000 and the second (label 1) with onset time 500; the record of stay 1 carries
  1000, the onset of label 0, although 500 is smaller.
\<close>

theorem one_record_per_stay_witness:
  "\<lparr>p_stay_id = 1, p_starttime = 1000, abx_idx = 0, p_subject_id = Some 7, p_charttime = 1000\<rparr>
     \<in> set (valid [\<lparr>a_hadm_id = Some 3, starttime = 1000, a_stay_id = Some 1\<rparr>,
                    \<lparr>a_hadm_id = Some 3, starttime = 500, a_stay_id = Some 1\<rparr>]
                   [\<lparr>b_subject_id = Some 7, charttime = 1000, b_stay_id = Some 1\<rparr>,
                    \<lparr>b_subject_id = Some 7, charttime = 500, b_stay_id = Some 1\<rparr>]) \<and>
   \<lparr>p_stay_id = 1, p_starttime = 500, abx_idx = 1, p_subject_id = Some 7, p_charttime = 500\<rparr>
     \<in> set (valid [\<lparr>a_hadm_id = Some 3, starttime = 1000, a_stay_id = Some 1\<rparr>,
                    \<lparr>a_hadm_id = Some 3, starttime = 500, a_stay_id = Some 1\<rparr>]
                   [\<lparr>b_subject_id = Some 7, charttime = 1000, b_stay_id = Some 1\<rparr>,
                    \<lparr>b_subject_id = Some 7, charttime = 500, b_stay_id = Some 1\<rparr>]) \<and>
   filter (\<lambda>rec. o_stay_id rec = 1)
     (find_infection_onset [\<lparr>a_hadm_id = Some 3, starttime = 1000, a_stay_id = Some 1\<rparr>,
                            \<lparr>a_hadm_id = Some 3, starttime = 500, a_stay_id = Some 1\<rparr>]
                           [\<lparr>b_subject_id = Some 7, charttime = 1000, b_stay_id = Some 1\<rparr>,
                            \<lparr>b_subject_id = Some 7, charttime = 500, b_stay_id = Some 1\<rparr>])
     = [\<lparr>o_subject_id = Some 7, o_stay_id = 1, onset_time = 1000\<rparr>]"
proof -
  let ?A = "[\<lparr>a_hadm_id = Some 3, starttime = 1000, a_stay_id = Some 1\<rparr>,
             \<lparr>a_hadm_id = Some 3, starttime = 500, a_stay_id = Some 1\<rparr>]"
  let ?B = "[\<lparr>b_subject_id = Some 7, charttime = 1000, b_stay_id = Some 1\<rparr>,
             \<lparr>b_subject_id = Some 7, charttime = 500, b_stay_id = Some 1\<rparr>]"
  let ?r0 = "\<lparr>p_stay_id = 1, p_starttime = 1000, abx_idx = 0, p_subject_id = Some 7, p_charttime = 1000\<rparr>"
  let ?r1 = "\<lparr>p_stay_id = 1, p_starttime = 500, abx_idx = 1, p_subject_id = Some 7, p_charttime = 500\<rparr>"
  have h0: "?r0 \<in> set (valid ?A ?B)" by code_simp
  have h1: "?r1 \<in> set (valid ?A ?B)" by code_simp
  have least: "\<forall>r'\<in>set (valid ?A ?B). p_stay_id r' = p_stay_id ?r0 \<longrightarrow> abx_idx ?r0 \<le> abx_idx r'"
    by code_simp
  have on: "onset_of ?r0 = 1000" by code_simp
  have "filter (\<lambda>rec. o_stay_id rec = p_stay_id ?r0) (find_infection_onset ?A ?B) =
        [\<lparr>o_subject_id = p_subject_id ?r0, o_stay_id = p_stay_id ?r0, onset_time = onset_of ?r0\<rparr>]"
    using one_record_per_stay[of ?A ?B ?r0] h0 least by blast
  then have "filter (\<lambda>rec. o_stay_id rec = 1) (find_infection_onset ?A ?B) =
        [\<lparr>o_subject_id = Some 7, o_stay_id = 1, onset_time = 1000\<rparr>]"
    using on by simp
  then show ?thesis using h0 h1 by blast
qed

text \<open>
  C8. The culture path is idempotent (lemma \<open>fill_bacterio_idem\<close>). The function is not: the
  frame \<open>abx\<close> that a first call returns has a column \<open>stay_id\<close>, and a second call on the
  returned frames, with the same stay table, raises \<open>KeyError\<close> at line 148 where the claim asks
  for the same frames again. It is the defect of C2: the antibiotic path lacks the filter of
  line 108 and the drop of line 112.
\<close>

theorem resolver_rerun_raises:
  "fill_missing_icustay_ids [\<lparr>b_subject_id = Some 7, charttime = 900, b_stay_id = None\<rparr>]
      [\<lparr>d_subject_id = Some 7, d_hadm_id = Some 3, d_stay_id = 1, intime = 1000, outtime = 5000\<rparr>]
      (Without_stay_id [\<lparr>a_hadm_id = Some 3, starttime = 950\<rparr>])
     = Inr ([\<lparr>b_subject_id = Some 7, charttime = 900, b_stay_id = Some 1\<rparr>],
            [\<lparr>a_hadm_id = Some 3, starttime = 950, a_stay_id = Some 1\<rparr>]) \<and>
   fill_missing_icustay_ids [\<lparr>b_subject_id = Some 7, charttime = 900, b_stay_id = Some 1\<rparr>]
      [\<lparr>d_subject_id = Some 7, d_hadm_id = Some 3, d_stay_id = 1, intime = 1000, outtime = 5000\<rparr>]
      (With_stay_id [\<lparr>a_hadm_id = Some 3, starttime = 950, a_stay_id = Some 1\<rparr>])
     = Inl (KeyError ''stay_id'')"
  by code_simp

text \<open>
  C9. Every record of \<open>find_infection_onset\<close> comes from a row of \<open>closest\<close> that pairs an
  antibiotic row \<open>abx ! i\<close> and a culture row \<open>bacterio ! j\<close> of the record's stay, and its
  \<open>onset_time\<close> is the \<open>starttime\<close> of that antibiotic row or the \<open>charttime\<close> of that culture row.
\<close>

theorem onset_time_from_pair:
  assumes "rec \<in> set (find_infection_onset abx bacterio)"
  shows "\<exists>i<length abx. \<exists>j<length bacterio.
     a_stay_id (abx ! i) = Some (o_stay_id rec) \<and> b_stay_id (bacterio ! j) = Some (o_stay_id rec) \<and>
     \<lparr>p_stay_id = o_stay_id rec, p_starttime = starttime (abx ! i), abx_idx = i,
       p_subject_id = b_subject_id (bacterio ! j), p_charttime = charttime (bacterio ! j)\<rparr>
       \<in> set (closest abx bacterio) \<and>
     (onset_time rec = starttime (abx ! i) \<or> onset_time rec = charttime (bacterio ! j))"
proof -
  obtain r where r: "r \<in> set (valid abx bacterio)"
      "rec = \<lparr>o_subject_id = p_subject_id r, o_stay_id = p_stay_id r, onset_time = onset_of r\<rparr>"
    using onset_record_origin[OF assms] by blast
  have rc: "r \<in> set (closest abx bacterio)" using r(1) valid_subset by blast
  then have "r \<in> set (merged abx bacterio)" using closest_subset by blast
  then obtain i j s where ij: "i < length abx" "j < length bacterio"
      "a_stay_id (abx ! i) = Some s" "b_stay_id (bacterio ! j) = Some s"
      "r = mk_pair s i (abx ! i) (bacterio ! j)"
    using merged_row_origin by blast
  have sel: "p_stay_id r = s" "p_starttime r = starttime (abx ! i)" "p_charttime r = charttime (bacterio ! j)"
    by (simp_all add: ij(5) mk_pair_sel)
  have os: "o_stay_id rec = s" "onset_time rec = onset_of r" by (simp_all add: r(2) sel)
  have row: "\<lparr>p_stay_id = s, p_starttime = starttime (abx ! i), abx_idx = i,
       p_subject_id = b_subject_id (bacterio ! j), p_charttime = charttime (bacterio ! j)\<rparr> = r"
    by (simp add: ij(5) mk_pair_def)
  have "onset_time rec = starttime (abx ! i) \<or> onset_time rec = charttime (bacterio ! j)"
    using onset_of_cases[of r] by (simp add: os sel)
  then have "i < length abx \<and> (j < length bacterio \<and>
     a_stay_id (abx ! i) = Some (o_stay_id rec) \<and> b_stay_id (bacterio ! j) = Some (o_stay_id rec) \<and>
     \<lparr>p_stay_id = o_stay_id rec, p_starttime = starttime (abx ! i), abx_idx = i,
       p_subject_id = b_subject_id (bacterio ! j), p_charttime = charttime (bacterio ! j)\<rparr>
       \<in> set (closest abx bacterio) \<and>
     (onset_time rec = starttime (abx ! i) \<or> onset_time rec = charttime (bacterio ! j)))"
    using ij(1-4) rc by (simp add: row os(1))
  then show ?thesis by blast
qed

text \<open>
  C9 at a concrete input: the record of the scenario of C1, whose onset time 900 is the
  culture's \<open>charttime\<close>.
\<close>

theorem onset_time_from_pair_witness:
  "\<lparr>o_subject_id = Some 7, o_stay_id = 1, onset_time = 900\<rparr>
     \<in> set (find_infection_onset [\<lparr>a_hadm_id = Some 3, starttime = 950, a_stay_id = Some 1\<rparr>]
                [\<lparr>b_subject_id = Some 7, charttime = 900, b_stay_id = Some 1\<rparr>]) \<and>
   (\<exists>i<length [\<lparr>a_hadm_id = Some 3, starttime = 950, a_stay_id = Some 1\<rparr>].
    \<exists>j<length [\<lparr>b_subject_id = Some 7, charttime = 900, b_stay_id = Some 1\<rparr>].
      (900::int) = starttime ([\<lparr>a_hadm_id = Some 3, starttime = 950, a_stay_id = Some 1\<rparr>] ! i) \<or>
      (900::int) = charttime ([\<lparr>b_subject_id = Some 7, charttime = 900, b_stay_id = Some 1\<rparr>] ! j))"
proof -
  let ?A = "[\<lparr>a_hadm_id = Some 3, starttime = 950, a_stay_id = Some 1\<rparr>]"
  let ?B = "[\<lparr>b_subject_id = Some 7, charttime = 900, b_stay_id = Some 1\<rparr>]"
  let ?rec = "\<lparr>o_subject_id = Some 7, o_stay_id = 1, onset_time = 900\<rparr>"
  have h: "?rec \<in> set (find_infection_onset ?A ?B)" by code_simp
  from onset_time_from_pair[OF h]
  have "\<exists>i<length ?A. \<exists>j<length ?B.
      onset_time ?rec = starttime (?A ! i) \<or> onset_time ?rec = charttime (?B ! j)"
    by blast
  then show ?thesis using h by simp
qed

text \<open>
  C10. The \<open>subject_id\<close> of every record of \<open>find_infection_onset\<close> is the \<open>subject_id\<close> of the
  culture row \<open>bacterio ! j\<close> of the pairing the record comes from (\<open>abx_sub\<close> has no such
  column, and the function does not read \<open>demog\<close>).
\<close>

theorem subject_from_culture:
  assumes "rec \<in> set (find_infection_onset abx bacterio)"
  shows "\<exists>i<length abx. \<exists>j<length bacterio.
     b_stay_id (bacterio ! j) = Some (o_stay_id rec) \<and>
     \<lparr>p_stay_id = o_stay_id rec, p_starttime = starttime (abx ! i), abx_idx = i,
       p_subject_id = b_subject_id (bacterio ! j), p_charttime = charttime (bacterio ! j)\<rparr>
       \<in> set (valid abx bacterio) \<and>
     o_subject_id rec = b_subject_id (bacterio ! j)"
proof -
  obtain r where r: "r \<in> set (valid abx bacterio)"
      "rec = \<lparr>o_subject_id = p_subject_id r, o_stay_id = p_stay_id r, onset_time = onset_of r\<rparr>"
    using onset_record_origin[OF assms] by blast
  have "r \<in> set (merged abx bacterio)" using r(1) valid_subset closest_subset by blast
  then obtain i j s where ij: "i < length abx" "j < length bacterio"
      "a_stay_id (abx ! i) = Some s" "b_stay_id (bacterio ! j) = Some s"
      "r = mk_pair s i (abx ! i) (bacterio ! j)"
    using merged_row_origin by blast
  have sel: "p_stay_id r = s" "p_subject_id r = b_subject_id (bacterio ! j)"
    by (simp_all add: ij(5) mk_pair_sel)
  have os: "o_stay_id rec = s" "o_subject_id rec = b_subject_id (bacterio ! j)"
    by (simp_all add: r(2) sel)
  have row: "\<lparr>p_stay_id = s, p_starttime = starttime (abx ! i), abx_idx = i,
       p_subject_id = b_subject_id (bacterio ! j), p_charttime = charttime (bacterio ! j)\<rparr> = r"
    by (simp add: ij(5) mk_pair_def)
  have "i < length abx \<and> (j < length bacterio \<and>
     b_stay_id (bacterio ! j) = Some (o_stay_id rec) \<and>
     \<lparr>p_stay_id = o_stay_id rec, p_starttime = starttime (abx ! i), abx_idx = i,
       p_subject_id = b_subject_id (bacterio ! j), p_charttime = charttime (bacterio ! j)\<rparr>
       \<in> set (valid abx bacterio) \<and>
     o_subject_id rec = b_subject_id (bacterio ! j))"
    using ij(1,2,4) r(1) by (simp add: row os)
  then show ?thesis by blast
qed

text \<open>
  C10 at a concrete input: two cultures of stay 1 carry the subjects 8 and 7; the antibiotic
  at 950 is nearest to the culture at 900, and the record carries that culture's subject 7.
\<close>

theorem subject_from_culture_witness:
  "\<lparr>o_subject_id = Some 7, o_stay_id = 1, onset_time = 900\<rparr>
     \<in> set (find_infection_onset [\<lparr>a_hadm_id = Some 3, starttime = 950, a_stay_id = Some 1\<rparr>]
                [\<lparr>b_subject_id = Some 8, charttime = 5000, b_stay_id = Some 1\<rparr>,
                 \<lparr>b_subject_id = Some 7, charttime = 900, b_stay_id = Some 1\<rparr>]) \<and>
   (\<exists>j<length [\<lparr>b_subject_id = Some 8, charttime = 5000, b_stay_id = Some 1\<rparr>,
                \<lparr>b_subject_id = Some 7, charttime = 900, b_stay_id = Some 1\<rparr>].
      b_stay_id ([\<lparr>b_subject_id = Some 8, charttime = 5000, b_stay_id = Some 1\<rparr>,
                  \<lparr>b_subject_id = Some 7, charttime = 900, b_stay_id = Some 1\<rparr>] ! j) = Some 1 \<and>
      Some 7 = b_subject_id ([\<lparr>b_subject_id = Some 8, charttime = 5000, b_stay_id = Some 1\<rparr>,
                  \<lparr>b_subject_id = Some 7, charttime = 900, b_stay_id = Some 1\<rparr>] ! j))"
proof -
  let ?A = "[\<lparr>a_hadm_id = Some 3, starttime = 950, a_stay_id = Some 1\<rparr>]"
  let ?B = "[\<lparr>b_subject_id = Some 8, charttime = 5000, b_stay_id = Some 1\<rparr>,
             \<lparr>b_subject_id = Some 7, charttime = 900, b_stay_id = Some 1\<rparr>]"
  let ?rec = "\<lparr>o_subject_id = Some 7, o_stay_id = 1, onset_time = 900\<rparr>"
  have h: "?rec \<in> set (find_infection_onset ?A ?B)" by code_simp
  from subject_from_culture[OF h]
  have "\<exists>j<length ?B. b_stay_id (?B ! j) = Some (o_stay_id ?rec) \<and>
      o_subject_id ?rec = b_subject_id (?B ! j)"
    by blast
  then show ?thesis using h by simp
qed

end
